theory Spec2Isabelle
  imports Complex_Main "HOL-Library.AList"
begin

section \<open>Shallow embedding of the UTXO ledger (package bitcoin)\<close>

text \<open>
  The embedding follows the Python sources function by function.

  \<^item> Python \<open>float\<close> amounts, difficulties and timestamps of block headers are modelled
    as exact reals: the statements below are about which numbers are added, compared and
    stored, not about rounding.
  \<^item> Python raises are values of \<open>error + 'a\<close> (\<open>Inl\<close> is the raise).
  \<^item> A Python \<open>dict\<close> whose order is observable (the UTXO dictionary) is an association
    list with the dictionary's insertion order; assignment to an existing key keeps its
    place, a new key goes last (\<open>AList.update\<close>), \<open>del\<close> removes it (\<open>AList.delete\<close>).
  \<^item> Calls into libraries outside the repository (hashlib, json, ecdsa, base58) and the
    clock are parameters: the record \<open>prims\<close> holds the library functions, and every
    function that reads \<open>time.time()\<close> takes the rendered time as an argument.
\<close>

subsection \<open>Errors and library primitives\<close>

datatype error = NameError string | KeyError string | IndexError | ZeroDivisionError
  | AttributeError

record prims =
  sha256_hexdigest :: "string \<Rightarrow> string"
  double_sha256 :: "string \<Rightarrow> string"
  json_dumps_block_data :: "int \<Rightarrow> string \<Rightarrow> string \<Rightarrow> string \<Rightarrow> int \<Rightarrow> string"
  json_dumps_transaction_data ::
    "(string \<times> int) list \<Rightarrow> (real \<times> string) list \<Rightarrow> string \<Rightarrow> int option \<Rightarrow> string"
  verify_signature_static :: "string \<Rightarrow> string \<Rightarrow> string \<Rightarrow> bool"
  derive_address_from_public_key :: "string \<Rightarrow> string"

text \<open>
  \<open>sha256_hexdigest s\<close> is \<open>hashlib.sha256(s.encode()).hexdigest()\<close>;
  \<open>double_sha256\<close> is \<open>MerkleTree._double_sha256\<close> (two rounds of hashlib's SHA-256,
  hex of the second digest); \<open>json_dumps_block_data\<close> is \<open>json.dumps\<close> with sorted keys
  of the dictionary built in \<open>HashUtils.calculate_block_hash\<close> from index, merkle root,
  previous hash, timestamp and nonce; \<open>json_dumps_transaction_data\<close> is \<open>json.dumps\<close>
  with sorted keys of the dictionary built in
  \<open>Transaction.get_transaction_data_for_signature\<close> (the inputs' references, the
  outputs, the timestamp and, when present, the block height); the last two are the
  static methods of \<open>AddressValidator\<close>, which wrap ecdsa, hashlib and base58.
\<close>

subsection \<open>Python's str(int)\<close>

definition digit_char :: "nat \<Rightarrow> char" where
  "digit_char k = ''0123456789'' ! k"

function str_nat :: "nat \<Rightarrow> string" where
  "str_nat n =
     (if n < 10 then [digit_char n]
      else str_nat (n div 10) @ [digit_char (n mod 10)])"
  by pat_completeness auto
termination
  by (relation "measure (\<lambda>n. n)") auto

definition str_int :: "int \<Rightarrow> string" where
  "str_int i = (if i < 0 then CHR ''-'' # str_nat (nat (- i)) else str_nat (nat i))"

subsection \<open>transaction.py: UTXO, TransactionInput, TransactionOutput\<close>

record utxo =
  utxo_transaction_id :: string
  utxo_output_index :: int
  utxo_amount :: real
  utxo_recipient_address :: string
  is_spent :: bool

definition UTXO_init :: "string \<Rightarrow> int \<Rightarrow> real \<Rightarrow> string \<Rightarrow> utxo" where
  "UTXO_init tid i a r =
     \<lparr>utxo_transaction_id = tid, utxo_output_index = i, utxo_amount = a,
      utxo_recipient_address = r, is_spent = False\<rparr>"

definition utxo_get_utxo_id :: "utxo \<Rightarrow> string" where
  "utxo_get_utxo_id u = utxo_transaction_id u @ '':'' @ str_int (utxo_output_index u)"

record transaction_input =
  in_transaction_id :: string
  in_output_index :: int
  signature :: string
  public_key :: string

definition get_utxo_id :: "transaction_input \<Rightarrow> string" where
  "get_utxo_id inp = in_transaction_id inp @ '':'' @ str_int (in_output_index inp)"

record transaction_output =
  amount :: real
  recipient_address :: string

subsection \<open>transaction.py: UTXOSet\<close>

type_synonym utxo_set = "(string \<times> utxo) list"

definition contains :: "utxo_set \<Rightarrow> string \<Rightarrow> bool" where
  "contains s k = (map_of s k \<noteq> None)"

definition getitem :: "utxo_set \<Rightarrow> string \<Rightarrow> error + utxo" where
  "getitem s k = (case map_of s k of None \<Rightarrow> Inl (KeyError k) | Some u \<Rightarrow> Inr u)"

definition delitem :: "utxo_set \<Rightarrow> string \<Rightarrow> error + utxo_set" where
  "delitem s k = (if contains s k then Inr (AList.delete k s) else Inl (KeyError k))"

definition add_utxo :: "utxo \<Rightarrow> utxo_set \<Rightarrow> utxo_set" where
  "add_utxo u s = AList.update (utxo_get_utxo_id u) u s"

definition remove_utxo :: "string \<Rightarrow> utxo_set \<Rightarrow> utxo_set" where
  "remove_utxo k s = (if contains s k then AList.delete k s else s)"

definition get_utxo :: "utxo_set \<Rightarrow> string \<Rightarrow> utxo option" where
  "get_utxo s k = map_of s k"

definition get_utxos_by_address :: "utxo_set \<Rightarrow> string \<Rightarrow> utxo list" where
  "get_utxos_by_address s address =
     filter (\<lambda>u. utxo_recipient_address u = address \<and> \<not> is_spent u) (map snd s)"

definition get_balance :: "utxo_set \<Rightarrow> string \<Rightarrow> real" where
  "get_balance s address = sum_list (map utxo_amount (get_utxos_by_address s address))"

text \<open>
  The first loop of \<open>update_from_transaction\<close>: for each input whose UTXO id is in the
  dictionary, the entry is marked spent (a read of \<open>self.utxos[utxo_id]\<close>, which raises
  KeyError on a missing key) and then deleted (\<open>del\<close>, which raises KeyError too).
\<close>

fun spend_inputs :: "transaction_input list \<Rightarrow> utxo_set \<Rightarrow> error + utxo_set" where
  "spend_inputs [] s = Inr s"
| "spend_inputs (inp # rest) s =
     (let utxo_id = get_utxo_id inp in
      if contains s utxo_id then
        (case getitem s utxo_id of
           Inl e \<Rightarrow> Inl e
         | Inr u \<Rightarrow>
             (case delitem (AList.update utxo_id (u\<lparr>is_spent := True\<rparr>) s) utxo_id of
                Inl e \<Rightarrow> Inl e
              | Inr s' \<Rightarrow> spend_inputs rest s'))
      else spend_inputs rest s)"

text \<open>The second loop: \<open>for index, output in enumerate(transaction.outputs)\<close>.\<close>

fun add_outputs :: "string \<Rightarrow> nat \<Rightarrow> transaction_output list \<Rightarrow> utxo_set \<Rightarrow> utxo_set" where
  "add_outputs tid i [] s = s"
| "add_outputs tid i (out # rest) s =
     add_outputs tid (Suc i) rest
       (add_utxo (UTXO_init tid (int i) (amount out) (recipient_address out)) s)"

text \<open>
  The id under which \<open>update_from_transaction\<close> stores output \<open>i\<close> of the transaction
  with id \<open>tid\<close>: \<open>get_utxo_id\<close> of the UTXO it builds (lemma \<open>utxo_id_UTXO_init\<close>).
\<close>

definition output_key :: "string \<Rightarrow> nat \<Rightarrow> string" where
  "output_key tid i = tid @ '':'' @ str_int (int i)"

subsection \<open>transaction.py: Transaction\<close>

record transaction =
  inputs :: "transaction_input list"
  outputs :: "transaction_output list"
  timestamp :: string
  block_height :: "int option"
  transaction_id :: string

definition update_from_transaction :: "transaction \<Rightarrow> utxo_set \<Rightarrow> error + utxo_set" where
  "update_from_transaction t s =
     (case spend_inputs (inputs t) s of
        Inl e \<Rightarrow> Inl e
      | Inr s' \<Rightarrow> Inr (add_outputs (transaction_id t) 0 (outputs t) s'))"

definition is_coinbase :: "transaction \<Rightarrow> bool" where
  "is_coinbase t =
     (if inputs t = [] then True else list_all (\<lambda>inp. in_transaction_id inp = []) (inputs t))"

text \<open>
  The loop of \<open>get_total_input_value\<close>: the local \<open>total\<close> (here \<open>tot\<close>) starts at 0.0 and grows by the amount of
  every input whose UTXO id is in the set.
\<close>

fun total_input_loop :: "utxo_set \<Rightarrow> transaction_input list \<Rightarrow> real \<Rightarrow> real" where
  "total_input_loop s [] tot = tot"
| "total_input_loop s (inp # rest) tot =
     (case map_of s (get_utxo_id inp) of
        Some u \<Rightarrow> total_input_loop s rest (tot + utxo_amount u)
      | None \<Rightarrow> total_input_loop s rest tot)"

definition get_total_input_value :: "transaction \<Rightarrow> utxo_set \<Rightarrow> real" where
  "get_total_input_value t s = (if is_coinbase t then 0 else total_input_loop s (inputs t) 0)"

definition get_total_output_value :: "transaction \<Rightarrow> real" where
  "get_total_output_value t = sum_list (map amount (outputs t))"

definition calculate_fee :: "transaction \<Rightarrow> utxo_set \<Rightarrow> real" where
  "calculate_fee t s =
     (if is_coinbase t then 0
      else
        let total_input = get_total_input_value t s;
            total_output = get_total_output_value t
        in max 0 (total_input - total_output))"

definition get_transaction_data_for_signature :: "prims \<Rightarrow> transaction \<Rightarrow> string" where
  "get_transaction_data_for_signature P t =
     json_dumps_transaction_data P
       (map (\<lambda>inp. (in_transaction_id inp, in_output_index inp)) (inputs t))
       (map (\<lambda>out. (amount out, recipient_address out)) (outputs t))
       (timestamp t)
       (if is_coinbase t \<and> block_height t \<noteq> None then block_height t else None)"

definition calculate_transaction_hash :: "prims \<Rightarrow> string \<Rightarrow> string" where
  "calculate_transaction_hash P transaction_data = sha256_hexdigest P transaction_data"

definition tx_calculate_hash :: "prims \<Rightarrow> transaction \<Rightarrow> string" where
  "tx_calculate_hash P t =
     calculate_transaction_hash P (get_transaction_data_for_signature P t)"

text \<open>
  The constructor reads the clock once (\<open>str(int(time.time()))\<close>, here \<open>now\<close>) and then
  computes the id from the other fields.
\<close>

definition Transaction_init ::
  "prims \<Rightarrow> string \<Rightarrow> transaction_input list \<Rightarrow> transaction_output list \<Rightarrow> int option
   \<Rightarrow> transaction" where
  "Transaction_init P now ins outs bh =
     (let t = \<lparr>inputs = ins, outputs = outs, timestamp = now, block_height = bh,
               transaction_id = []\<rparr>
      in t\<lparr>transaction_id := tx_calculate_hash P t\<rparr>)"

definition create_coinbase_transaction ::
  "prims \<Rightarrow> string \<Rightarrow> string \<Rightarrow> real \<Rightarrow> int option \<Rightarrow> transaction" where
  "create_coinbase_transaction P now miner_address reward bh =
     Transaction_init P now []
       [\<lparr>amount = reward, recipient_address = miner_address\<rparr>] bh"

definition get_input_signature_data :: "prims \<Rightarrow> transaction \<Rightarrow> nat \<Rightarrow> string" where
  "get_input_signature_data P t input_index =
     get_transaction_data_for_signature P t @ '':input_'' @ str_nat input_index"

definition verify_input_address :: "prims \<Rightarrow> transaction_input \<Rightarrow> utxo_set \<Rightarrow> bool" where
  "verify_input_address P inp s =
     (case map_of s (get_utxo_id inp) of
        None \<Rightarrow> False
      | Some u \<Rightarrow>
          derive_address_from_public_key P (public_key inp) = utxo_recipient_address u)"

text \<open>
  The loop of \<open>verify_signature\<close> over \<open>enumerate(self.inputs)\<close>. The optional argument
  \<open>utxo_set\<close> is \<open>None\<close> or a \<open>UTXOSet\<close> object, which is always truthy (the class
  defines neither \<open>__bool__\<close> nor \<open>__len__\<close>).
\<close>

fun verify_signature_loop ::
  "prims \<Rightarrow> transaction \<Rightarrow> utxo_set option \<Rightarrow> nat \<Rightarrow> transaction_input list \<Rightarrow> bool" where
  "verify_signature_loop P t us i [] = True"
| "verify_signature_loop P t us i (inp # rest) =
     (if signature inp = [] \<or> public_key inp = [] then False
      else if (case us of None \<Rightarrow> False | Some s \<Rightarrow> \<not> verify_input_address P inp s)
        then False
      else if \<not> verify_signature_static P (get_input_signature_data P t i)
                  (signature inp) (public_key inp)
        then False
      else verify_signature_loop P t us (Suc i) rest)"

definition verify_signature :: "prims \<Rightarrow> transaction \<Rightarrow> utxo_set option \<Rightarrow> bool" where
  "verify_signature P t us =
     (if is_coinbase t then True else verify_signature_loop P t us 0 (inputs t))"

text \<open>
  The loop of \<open>_validate_utxo_constraints\<close>; \<open>None\<close> is the early \<open>return False\<close>,
  \<open>Some total\<close> the accumulated input value.
\<close>

fun utxo_constraints_loop :: "utxo_set \<Rightarrow> transaction_input list \<Rightarrow> real \<Rightarrow> real option" where
  "utxo_constraints_loop s [] total_input = Some total_input"
| "utxo_constraints_loop s (inp # rest) total_input =
     (case map_of s (get_utxo_id inp) of
        None \<Rightarrow> None
      | Some u \<Rightarrow>
          if is_spent u then None
          else utxo_constraints_loop s rest (total_input + utxo_amount u))"

definition validate_utxo_constraints :: "transaction \<Rightarrow> utxo_set \<Rightarrow> bool" where
  "validate_utxo_constraints t s =
     (case utxo_constraints_loop s (inputs t) 0 of
        None \<Rightarrow> False
      | Some total_input \<Rightarrow> total_input \<ge> get_total_output_value t)"

definition is_valid :: "prims \<Rightarrow> transaction \<Rightarrow> utxo_set option \<Rightarrow> bool" where
  "is_valid P t us =
     (if outputs t = [] then False
      else if \<not> list_all (\<lambda>out. \<not> amount out \<le> 0) (outputs t) then False
      else if is_coinbase t then length (outputs t) > 0
      else if inputs t = [] then False
      else if \<not> verify_signature P t us then False
      else if (case us of None \<Rightarrow> False | Some s \<Rightarrow> \<not> validate_utxo_constraints t s)
        then False
      else True)"

subsection \<open>utils.py: HashUtils\<close>

definition calculate_sha256 :: "prims \<Rightarrow> string \<Rightarrow> string" where
  "calculate_sha256 P data_string = sha256_hexdigest P data_string"

definition calculate_block_hash ::
  "prims \<Rightarrow> int \<Rightarrow> string \<Rightarrow> string \<Rightarrow> string \<Rightarrow> int \<Rightarrow> string" where
  "calculate_block_hash P idx mroot prev ts n =
     calculate_sha256 P (json_dumps_block_data P idx mroot prev ts n)"

subsection \<open>merkle_tree.py\<close>

text \<open>
  \<open>MerkleNode\<close> is a dataclass: its \<open>==\<close> compares the four fields, children included,
  which is the equality of the datatype.
\<close>

datatype merkle_node =
  MerkleNode (hash_value: string) (left: "merkle_node option") (right: "merkle_node option")
    (data: "string option")

definition is_leaf :: "merkle_node \<Rightarrow> bool" where
  "is_leaf n = (left n = None \<and> right n = None)"


record merkle_tree =
  mt_transactions :: "string list"
  root_node :: "merkle_node option"
  leaves :: "merkle_node list"

definition make_leaf :: "prims \<Rightarrow> string \<Rightarrow> merkle_node" where
  "make_leaf P tx_hash = MerkleNode (double_sha256 P tx_hash) None None (Some tx_hash)"

definition make_parent :: "prims \<Rightarrow> merkle_node \<Rightarrow> merkle_node \<Rightarrow> merkle_node" where
  "make_parent P left_node right_node =
     MerkleNode (double_sha256 P (hash_value left_node @ hash_value right_node))
       (Some left_node) (Some right_node) None"

text \<open>
  The inner loop of \<open>build_tree\<close>, \<open>for i in range(0, len(current_level), 2)\<close>: the nodes
  are taken two at a time, and a last node without a partner is paired with itself.
\<close>

fun next_level :: "prims \<Rightarrow> merkle_node list \<Rightarrow> merkle_node list" where
  "next_level P [] = []"
| "next_level P [left_node] = [make_parent P left_node left_node]"
| "next_level P (left_node # right_node # rest) =
     make_parent P left_node right_node # next_level P rest"

lemma length_next_level: "length (next_level P xs) = (length xs + 1) div 2"
  by (induction P xs rule: next_level.induct) simp_all

text \<open>The outer loop, \<open>while len(current_level) > 1\<close>.\<close>

function build_levels :: "prims \<Rightarrow> merkle_node list \<Rightarrow> merkle_node list" where
  "build_levels P current_level =
     (if length current_level > 1 then build_levels P (next_level P current_level)
      else current_level)"
  by pat_completeness auto
termination
  by (relation "measure (\<lambda>(P, xs). length xs)") (auto simp: length_next_level)

definition build_tree :: "prims \<Rightarrow> merkle_tree \<Rightarrow> merkle_tree" where
  "build_tree P tree =
     (if mt_transactions tree = [] then tree\<lparr>root_node := None, leaves := []\<rparr>
      else
        let lvs = map (make_leaf P) (mt_transactions tree);
            current_level = build_levels P lvs
        in tree\<lparr>leaves := lvs,
                root_node := (case current_level of [] \<Rightarrow> None | n # _ \<Rightarrow> Some n)\<rparr>)"

definition MerkleTree_init :: "prims \<Rightarrow> string list \<Rightarrow> merkle_tree" where
  "MerkleTree_init P txs =
     (let tree = \<lparr>mt_transactions = txs, root_node = None, leaves = []\<rparr>
      in if txs \<noteq> [] then build_tree P tree else tree)"

definition get_merkle_root :: "merkle_tree \<Rightarrow> string option" where
  "get_merkle_root tree = (case root_node tree of Some n \<Rightarrow> Some (hash_value n) | None \<Rightarrow> None)"





subsection \<open>blockchain.py: Block\<close>

text \<open>
  A block stores its transactions as dictionaries. \<open>d_transaction_id = None\<close> is a
  dictionary without the key \<open>transaction_id\<close>.
\<close>

record tx_dict =
  d_transaction_id :: "string option"
  d_inputs :: "transaction_input list"
  d_outputs :: "transaction_output list"
  d_timestamp :: string
  d_block_height :: "int option"

definition to_dict :: "transaction \<Rightarrow> tx_dict" where
  "to_dict t =
     \<lparr>d_transaction_id = Some (transaction_id t), d_inputs = inputs t,
      d_outputs = outputs t, d_timestamp = timestamp t, d_block_height = block_height t\<rparr>"

record block =
  index :: int
  transactions :: "tx_dict list"
  previous_hash :: string
  block_timestamp :: string
  nonce :: int
  merkle_tree :: "merkle_tree option"
  merkle_root :: string
  hash :: string

text \<open>
  The loop of \<open>_calculate_merkle_root\<close>. Its else branch calls \<open>hashlib.sha256\<close>, and
  blockchain.py imports json, time, typing, the configuration constants, Transaction,
  UTXOSet, MerkleTree, MerkleProof and HashUtils, but not hashlib: evaluating the name
  raises NameError.
\<close>

fun transaction_hashes_loop :: "tx_dict list \<Rightarrow> string list \<Rightarrow> error + string list" where
  "transaction_hashes_loop [] transaction_hashes = Inr transaction_hashes"
| "transaction_hashes_loop (tx_data # rest) transaction_hashes =
     (case d_transaction_id tx_data of
        Some tid \<Rightarrow> transaction_hashes_loop rest (transaction_hashes @ [tid])
      | None \<Rightarrow> Inl (NameError ''hashlib''))"

definition zero_root :: string where
  "zero_root = replicate 64 CHR ''0''"

definition calculate_merkle_root ::
  "prims \<Rightarrow> tx_dict list \<Rightarrow> error + (merkle_tree option \<times> string)" where
  "calculate_merkle_root P txs =
     (if txs = [] then Inr (None, zero_root)
      else
        (case transaction_hashes_loop txs [] of
           Inl e \<Rightarrow> Inl e
         | Inr transaction_hashes \<Rightarrow>
             let tree = MerkleTree_init P transaction_hashes
             in Inr (Some tree,
                     (case get_merkle_root tree of
                        Some r \<Rightarrow> if r = [] then zero_root else r
                      | None \<Rightarrow> zero_root))))"

definition calculate_hash :: "prims \<Rightarrow> block \<Rightarrow> string" where
  "calculate_hash P b =
     calculate_block_hash P (index b) (merkle_root b) (previous_hash b) (block_timestamp b)
       (nonce b)"

text \<open>
  \<open>Block.__init__\<close>; \<open>now\<close> is \<open>str(int(time.time()))\<close>, used when no timestamp (or an
  empty one) is given.
\<close>

definition Block_init ::
  "prims \<Rightarrow> string \<Rightarrow> int \<Rightarrow> tx_dict list \<Rightarrow> string \<Rightarrow> string option \<Rightarrow> int \<Rightarrow> error + block"
  where
  "Block_init P now idx txs prev ts n =
     (case calculate_merkle_root P txs of
        Inl e \<Rightarrow> Inl e
      | Inr (tree, mroot) \<Rightarrow>
          let b = \<lparr>index = idx, transactions = txs, previous_hash = prev,
                   block_timestamp = (case ts of None \<Rightarrow> now
                                      | Some t \<Rightarrow> if t = [] then now else t),
                   nonce = n, merkle_tree = tree, merkle_root = mroot, hash = []\<rparr>
          in Inr (b\<lparr>hash := calculate_hash P b\<rparr>))"

text \<open>Python's \<open>s[:n]\<close> for an integer \<open>n\<close> of either sign.\<close>

definition py_prefix :: "string \<Rightarrow> int \<Rightarrow> string" where
  "py_prefix s n = (if n \<ge> 0 then take (nat n) s else take (length s - nat (- n)) s)"

definition pow_target :: "int \<Rightarrow> string" where
  "pow_target d = replicate (nat d) CHR ''0''"

text \<open>
  \<open>mine_block\<close>: the loop may run forever, so the model is a partial function; \<open>None\<close>
  is the search that never ends. The progress messages are not modelled.
\<close>

partial_function (option) mine_block :: "prims \<Rightarrow> int \<Rightarrow> block \<Rightarrow> block option" where
  "mine_block P d b =
     (if py_prefix (hash b) d \<noteq> pow_target d then
        mine_block P d
          (let b1 = b\<lparr>nonce := nonce b + 1\<rparr> in b1\<lparr>hash := calculate_hash P b1\<rparr>)
      else Some b)"

subsection \<open>blockchain.py: TransactionHistoryCache and Blockchain\<close>

typedecl history_entry

record history_cache =
  cache :: "string \<rightharpoonup> history_entry list"
  last_block_index :: int

definition invalidate_cache :: "history_cache \<Rightarrow> history_cache" where
  "invalidate_cache c = c\<lparr>cache := Map.empty, last_block_index := - 1\<rparr>"

record blockchain =
  difficulty :: int
  pending_transactions :: "transaction list"
  mining_reward :: real
  utxo_set :: utxo_set
  history_cache :: history_cache
  transaction_index :: "string \<rightharpoonup> (int \<times> nat)"
  chain :: "block list"

text \<open>
  \<open>_validate_transaction_utxos\<close>: first the set of the UTXO ids used by the pending
  transactions, then the loop over the inputs of the transaction (\<open>None\<close> is the early
  \<open>return False\<close>).
\<close>

definition pending_used_utxos :: "transaction list \<Rightarrow> string set" where
  "pending_used_utxos pending =
     set (concat (map (\<lambda>pending_tx. map get_utxo_id (inputs pending_tx)) pending))"

fun validate_utxos_loop ::
  "utxo_set \<Rightarrow> string set \<Rightarrow> transaction_input list \<Rightarrow> real \<Rightarrow> real option" where
  "validate_utxos_loop s used [] total_input = Some total_input"
| "validate_utxos_loop s used (inp # rest) total_input =
     (let utxo_id = get_utxo_id inp in
      case map_of s utxo_id of
        None \<Rightarrow> None
      | Some u \<Rightarrow>
          if utxo_id \<in> used then None
          else if is_spent u then None
          else validate_utxos_loop s used rest (total_input + utxo_amount u))"

definition validate_transaction_utxos :: "blockchain \<Rightarrow> transaction \<Rightarrow> bool" where
  "validate_transaction_utxos bc t =
     (case validate_utxos_loop (utxo_set bc) (pending_used_utxos (pending_transactions bc))
             (inputs t) 0 of
        None \<Rightarrow> False
      | Some total_input \<Rightarrow> total_input \<ge> sum_list (map amount (outputs t)))"

text \<open>
  No UTXO id is referenced by two different transactions of the list (the invariant of
  the mempool that \<open>_validate_transaction_utxos\<close> maintains).
\<close>

definition mempool_disjoint :: "transaction list \<Rightarrow> bool" where
  "mempool_disjoint pending =
     (\<forall>i j. i < j \<and> j < length pending \<longrightarrow>
        get_utxo_id ` set (inputs (pending ! i)) \<inter> get_utxo_id ` set (inputs (pending ! j))
          = {})"

text \<open>\<open>add_transaction\<close> returns its flag and the ledger after the call.\<close>

definition add_transaction :: "prims \<Rightarrow> transaction \<Rightarrow> blockchain \<Rightarrow> bool \<times> blockchain" where
  "add_transaction P t bc =
     (if \<not> is_valid P t (Some (utxo_set bc)) then (False, bc)
      else if inputs t \<noteq> [] \<and> \<not> validate_transaction_utxos bc t then (False, bc)
      else
        (True,
         bc\<lparr>pending_transactions := pending_transactions bc @ [t],
            history_cache := invalidate_cache (history_cache bc)\<rparr>))"

fun update_utxo_set :: "transaction list \<Rightarrow> utxo_set \<Rightarrow> error + utxo_set" where
  "update_utxo_set [] s = Inr s"
| "update_utxo_set (t # rest) s =
     (case update_from_transaction t s of
        Inl e \<Rightarrow> Inl e
      | Inr s' \<Rightarrow> update_utxo_set rest s')"

text \<open>
  The loop of \<open>_update_transaction_index\<close> over \<open>enumerate(block.transactions)\<close>: an
  entry is written only for an id that is present and not empty.
\<close>

fun transaction_index_loop ::
  "int \<Rightarrow> nat \<Rightarrow> tx_dict list \<Rightarrow> (string \<rightharpoonup> (int \<times> nat)) \<Rightarrow> (string \<rightharpoonup> (int \<times> nat))" where
  "transaction_index_loop block_index tx_index [] m = m"
| "transaction_index_loop block_index tx_index (tx_data # rest) m =
     transaction_index_loop block_index (Suc tx_index) rest
       (case d_transaction_id tx_data of
          None \<Rightarrow> m
        | Some tid \<Rightarrow> if tid \<noteq> [] then m(tid \<mapsto> (block_index, tx_index)) else m)"

definition update_transaction_index ::
  "block \<Rightarrow> (string \<rightharpoonup> (int \<times> nat)) \<Rightarrow> (string \<rightharpoonup> (int \<times> nat))" where
  "update_transaction_index b m = transaction_index_loop (index b) 0 (transactions b) m"

definition get_latest_block :: "blockchain \<Rightarrow> error + block" where
  "get_latest_block bc = (if chain bc = [] then Inl IndexError else Inr (last (chain bc)))"

definition bc_get_balance :: "blockchain \<Rightarrow> string \<Rightarrow> real" where
  "bc_get_balance bc address = get_balance (utxo_set bc) address"

text \<open>
  \<open>mine_pending_transactions\<close>. The clock is read twice, by the constructor of the
  reward transaction (\<open>now_tx\<close>) and by the constructor of the block (\<open>now_block\<close>).
  \<open>reward_transaction\<close> is the local of that name: the coinbase transaction for the
  mining reward plus the fees of the pending transactions, tagged with the length of
  the chain.
\<close>

definition reward_transaction :: "prims \<Rightarrow> string \<Rightarrow> string \<Rightarrow> blockchain \<Rightarrow> transaction" where
  "reward_transaction P now_tx mining_reward_address bc =
     (let total_fees =
            sum_list (map (\<lambda>tx. calculate_fee tx (utxo_set bc)) (pending_transactions bc))
      in create_coinbase_transaction P now_tx mining_reward_address
           (mining_reward bc + total_fees) (Some (int (length (chain bc)))))"

text \<open>
  The result is \<open>None\<close> when the proof-of-work search never ends, \<open>Some (Inl e)\<close> for a
  raise, \<open>Some (Inr (block, ledger))\<close> for a return.
\<close>

definition mine_pending_transactions ::
  "prims \<Rightarrow> string \<Rightarrow> string \<Rightarrow> string \<Rightarrow> blockchain \<Rightarrow> (error + block \<times> blockchain) option"
  where
  "mine_pending_transactions P now_tx now_block mining_reward_address bc =
     (let reward = reward_transaction P now_tx mining_reward_address bc;
          transactions_data = map to_dict (pending_transactions bc) @ [to_dict reward]
      in
        case get_latest_block bc of
          Inl e \<Rightarrow> Some (Inl e)
        | Inr latest \<Rightarrow>
            (case Block_init P now_block (int (length (chain bc))) transactions_data
                    (hash latest) None 0 of
               Inl e \<Rightarrow> Some (Inl e)
             | Inr new_block \<Rightarrow>
                 (case mine_block P (difficulty bc) new_block of
                    None \<Rightarrow> None
                  | Some mined \<Rightarrow>
                      (case update_utxo_set (pending_transactions bc @ [reward])
                              (utxo_set bc) of
                         Inl e \<Rightarrow> Some (Inl e)
                       | Inr s' \<Rightarrow>
                           Some (Inr (mined,
                             bc\<lparr>chain := chain bc @ [mined],
                                utxo_set := s',
                                transaction_index :=
                                  update_transaction_index mined (transaction_index bc),
                                pending_transactions := [],
                                history_cache := invalidate_cache (history_cache bc)\<rparr>))))))"

text \<open>
  The ledger that \<open>mine_pending_transactions\<close> leaves when the mined block is \<open>mined\<close>
  and the updated UTXO dictionary is \<open>s'\<close> (the five assignments after the search).
\<close>

definition ledger_after :: "blockchain \<Rightarrow> block \<Rightarrow> utxo_set \<Rightarrow> blockchain" where
  "ledger_after bc mined s' =
     bc\<lparr>chain := chain bc @ [mined], utxo_set := s',
        transaction_index := update_transaction_index mined (transaction_index bc),
        pending_transactions := [],
        history_cache := invalidate_cache (history_cache bc)\<rparr>"

subsection \<open>difficulty_adjustment.py\<close>

record block_header =
  height :: int
  bh_timestamp :: real
  bh_difficulty :: real
  target :: string
  bh_hash_value :: string
  bh_previous_hash :: string
  bh_nonce :: int

text \<open>The five reason texts of \<open>_get_adjustment_reason\<close>, in the order of its branches.\<close>

datatype adjustment_reason =
  HashrateDown | HashrateSlightlyDown | HashrateLargelyUp | HashrateUp | HashrateStable

record adjustment_info =
  ai_height :: int
  ai_timestamp :: real
  old_difficulty :: real
  new_difficulty :: real
  actual_timespan :: real
  target_timespan :: real
  adjustment_ratio :: real
  reason :: adjustment_reason

record difficulty_adjustment =
  initial_difficulty :: real
  block_headers :: "block_header list"
  difficulty_history :: "adjustment_info list"

definition ADJUSTMENT_INTERVAL :: int where
  "ADJUSTMENT_INTERVAL = 2016"

definition TARGET_TIMESPAN :: real where
  "TARGET_TIMESPAN = 14 * 24 * 60 * 60"

definition MAX_ADJUSTMENT_FACTOR :: real where
  "MAX_ADJUSTMENT_FACTOR = 4"

definition MIN_ADJUSTMENT_FACTOR :: real where
  "MIN_ADJUSTMENT_FACTOR = 0.25"

definition should_adjust_difficulty :: "int \<Rightarrow> bool" where
  "should_adjust_difficulty h = (h > 0 \<and> h mod ADJUSTMENT_INTERVAL = 0)"

definition find_block_by_height :: "difficulty_adjustment \<Rightarrow> int \<Rightarrow> block_header option" where
  "find_block_by_height da h = find (\<lambda>header. height header = h) (block_headers da)"

definition get_adjustment_reason :: "real \<Rightarrow> adjustment_reason" where
  "get_adjustment_reason ratio =
     (if ratio > 1.5 then HashrateDown
      else if ratio > 1.1 then HashrateSlightlyDown
      else if ratio < 0.67 then HashrateLargelyUp
      else if ratio < 0.9 then HashrateUp
      else HashrateStable)"

definition current_difficulty :: "difficulty_adjustment \<Rightarrow> real" where
  "current_difficulty da =
     (if block_headers da \<noteq> [] then bh_difficulty (last (block_headers da))
      else initial_difficulty da)"

text \<open>
  \<open>calculate_next_difficulty\<close> returns the new difficulty and the adjuster after the
  call (its history grows on an adjustment); \<open>now\<close> is \<open>time.time()\<close>. The division is
  Python's true division, which raises ZeroDivisionError on a zero divisor.
\<close>

definition calculate_next_difficulty ::
  "difficulty_adjustment \<Rightarrow> real \<Rightarrow> int \<Rightarrow> error + real \<times> difficulty_adjustment" where
  "calculate_next_difficulty da now current_height =
     (if \<not> should_adjust_difficulty current_height then Inr (current_difficulty da, da)
      else
        let adjustment_start_height = current_height - ADJUSTMENT_INTERVAL in
        case find_block_by_height da adjustment_start_height of
          None \<Rightarrow> Inr (current_difficulty da, da)
        | Some start_block \<Rightarrow>
            (case find_block_by_height da (current_height - 1) of
               None \<Rightarrow> Inr (current_difficulty da, da)
             | Some end_block \<Rightarrow>
                 let timespan = bh_timestamp end_block - bh_timestamp start_block in
                 if timespan = 0 then Inl ZeroDivisionError
                 else
                   let ratio0 = TARGET_TIMESPAN / timespan;
                       ratio = max MIN_ADJUSTMENT_FACTOR (min MAX_ADJUSTMENT_FACTOR ratio0);
                       cur = bh_difficulty end_block;
                       new = cur * ratio;
                       info = \<lparr>ai_height = current_height, ai_timestamp = now,
                               old_difficulty = cur, new_difficulty = new,
                               actual_timespan = timespan, target_timespan = TARGET_TIMESPAN,
                               adjustment_ratio = ratio,
                               reason = get_adjustment_reason ratio\<rparr>
                   in Inr (new, da\<lparr>difficulty_history := difficulty_history da @ [info]\<rparr>)))"

subsection \<open>Predicates on Merkle trees used in the statements\<close>




subsection \<open>Concrete inputs used to instantiate the theorems\<close>

text \<open>
  Stand-ins for the library functions, small enough to evaluate: the hashes return
  their argument (marked, for the double hash), a signature is valid when it is the
  text \<open>sig-\<close> followed by the public key, and the address of a key is \<open>addr-\<close> followed
  by the key. They only instantiate theorems that hold for every choice of \<open>prims\<close>.
\<close>

definition demo_prims :: prims where
  "demo_prims =
     \<lparr>sha256_hexdigest = (\<lambda>s. s),
      double_sha256 = (\<lambda>s. CHR ''h'' # s),
      json_dumps_block_data = (\<lambda>idx mroot prev ts n. str_int (3 - n) @ '','' @ str_int idx),
      json_dumps_transaction_data = (\<lambda>ins outs ts bh. ts),
      verify_signature_static = (\<lambda>message sg pk. sg = ''sig-'' @ pk),
      derive_address_from_public_key = (\<lambda>pk. ''addr-'' @ pk)\<rparr>"

definition demo_input :: transaction_input where
  "demo_input = \<lparr>in_transaction_id = ''aa'', in_output_index = 0, signature = ''sig-k1'',
                  public_key = ''k1''\<rparr>"

definition demo_tx1 :: transaction where
  "demo_tx1 = \<lparr>inputs = [demo_input],
                outputs = [\<lparr>amount = 20, recipient_address = ''bob''\<rparr>,
                           \<lparr>amount = 29, recipient_address = ''addr-k1''\<rparr>],
                timestamp = ''1700000000'', block_height = None, transaction_id = ''t1''\<rparr>"

definition demo_tx2 :: transaction where
  "demo_tx2 = \<lparr>inputs = [demo_input],
                outputs = [\<lparr>amount = 50, recipient_address = ''carol''\<rparr>],
                timestamp = ''1700000001'', block_height = None, transaction_id = ''t2''\<rparr>"

definition demo_ledger :: blockchain where
  "demo_ledger =
     \<lparr>difficulty = 1, pending_transactions = [], mining_reward = 50,
      utxo_set = [(''aa:0'', UTXO_init ''aa'' 0 50 ''addr-k1'')],
      history_cache = \<lparr>cache = Map.empty, last_block_index = - 1\<rparr>,
      transaction_index = Map.empty, chain = []\<rparr>"

definition demo_header :: "int \<Rightarrow> real \<Rightarrow> real \<Rightarrow> block_header" where
  "demo_header h ts d =
     \<lparr>height = h, bh_timestamp = ts, bh_difficulty = d, target = ''f'', bh_hash_value = ''h'',
      bh_previous_hash = ''p'', bh_nonce = 0\<rparr>"

definition demo_adjuster :: "real \<Rightarrow> difficulty_adjustment" where
  "demo_adjuster end_time =
     \<lparr>initial_difficulty = 1,
      block_headers = [demo_header 0 1000 2, demo_header 2015 end_time 2],
      difficulty_history = []\<rparr>"

definition demo_dict_without_id :: tx_dict where
  "demo_dict_without_id =
     \<lparr>d_transaction_id = None, d_inputs = [], d_outputs = [], d_timestamp = ''0'',
      d_block_height = None\<rparr>"

definition demo_self_tx :: transaction where
  "demo_self_tx =
     \<lparr>inputs = [\<lparr>in_transaction_id = ''t'', in_output_index = 0, signature = ''sig-k1'',
                  public_key = ''k1''\<rparr>],
      outputs = [\<lparr>amount = 5, recipient_address = ''addr-k1''\<rparr>],
      timestamp = ''1700000002'', block_height = None, transaction_id = ''t''\<rparr>"

definition demo_block :: block where
  "demo_block =
     \<lparr>index = 1, transactions = [], previous_hash = ''0'', block_timestamp = ''1700000000'',
      nonce = 0, merkle_tree = None, merkle_root = zero_root, hash = ''3,1''\<rparr>"

definition demo_ledger2 :: blockchain where
  "demo_ledger2 = demo_ledger\<lparr>chain := [demo_block], pending_transactions := [demo_tx1]\<rparr>"

definition demo_coinbase :: transaction where
  "demo_coinbase =
     \<lparr>inputs = [], outputs = [\<lparr>amount = 1, recipient_address = ''addr-m''\<rparr>],
      timestamp = ''1700000003'', block_height = None, transaction_id = ''c''\<rparr>"

definition demo_ledger3 :: blockchain where
  "demo_ledger3 =
     demo_ledger\<lparr>difficulty := 0, chain := [demo_block],
                 pending_transactions := [demo_coinbase, demo_coinbase]\<rparr>"


definition demo_reward :: transaction where
  "demo_reward =
     \<lparr>inputs = [], outputs = [\<lparr>amount = 51, recipient_address = ''addr-m''\<rparr>],
      timestamp = ''1700000005'', block_height = Some 1, transaction_id = ''1700000005''\<rparr>"




section \<open>Properties\<close>

subsection \<open>The mempool: add_transaction\<close>

lemma demo_input_id: "get_utxo_id demo_input = ''aa:0''"
  by (simp add: get_utxo_id_def demo_input_def str_int_def digit_char_def)

lemma demo_tx1_accepted: "fst (add_transaction demo_prims demo_tx1 demo_ledger)"
  by (simp add: add_transaction_def is_valid_def demo_tx1_def demo_ledger_def is_coinbase_def
      verify_signature_def verify_input_address_def demo_prims_def
      validate_utxo_constraints_def get_total_output_value_def UTXO_init_def
      validate_transaction_utxos_def pending_used_utxos_def demo_input_def
      get_utxo_id_def str_int_def digit_char_def)

lemma demo_tx2_rejected:
  "\<not> fst (add_transaction demo_prims demo_tx2
            (snd (add_transaction demo_prims demo_tx1 demo_ledger)))"
  by (simp add: add_transaction_def is_valid_def demo_tx1_def demo_tx2_def demo_ledger_def
      is_coinbase_def verify_signature_def verify_input_address_def demo_prims_def
      validate_utxo_constraints_def get_total_output_value_def UTXO_init_def
      validate_transaction_utxos_def pending_used_utxos_def demo_input_def
      get_utxo_id_def str_int_def digit_char_def)

lemma validate_utxos_loop_used:
  "inp \<in> set ins \<Longrightarrow> get_utxo_id inp \<in> used \<Longrightarrow> validate_utxos_loop s used ins tot = None"
  by (induction ins arbitrary: tot) (auto simp: Let_def split: option.splits)

text \<open>
  Claim C1. If \<open>add_transaction t1\<close> returns true, and \<open>t1\<close> and \<open>t2\<close> each have an input
  with the same UTXO id, then the following \<open>add_transaction t2\<close> returns false: the id
  is among the ids used by the pending transactions, so the loop of
  \<open>_validate_transaction_utxos\<close> returns false at that input at the latest.
\<close>

theorem no_double_spend:
  assumes "fst (add_transaction P t1 bc)"
    and "inp1 \<in> set (inputs t1)" and "inp2 \<in> set (inputs t2)"
    and "get_utxo_id inp1 = get_utxo_id inp2"
  shows "\<not> fst (add_transaction P t2 (snd (add_transaction P t1 bc)))"
proof -
  let ?bc' = "snd (add_transaction P t1 bc)"
  have pend: "pending_transactions ?bc' = pending_transactions bc @ [t1]"
    and us: "utxo_set ?bc' = utxo_set bc"
    using assms(1) by (simp_all add: add_transaction_def split: if_splits)
  have "get_utxo_id inp1 \<in> pending_used_utxos (pending_transactions ?bc')"
    using assms(2) by (auto simp: pend pending_used_utxos_def)
  then have "get_utxo_id inp2 \<in> pending_used_utxos (pending_transactions ?bc')"
    using assms(4) by simp
  then have "validate_utxos_loop (utxo_set ?bc') (pending_used_utxos (pending_transactions ?bc'))
               (inputs t2) 0 = None"
    using assms(3) by (rule validate_utxos_loop_used[rotated])
  then have "\<not> validate_transaction_utxos ?bc' t2"
    by (simp add: validate_transaction_utxos_def)
  moreover have "inputs t2 \<noteq> []" using assms(3) by auto
  ultimately show ?thesis
    by (simp add: add_transaction_def)
qed

text \<open>
  The theorem at a ledger with one unspent output of 50: the first spend of it is
  accepted, the second transaction spending the same output is rejected.
\<close>

theorem no_double_spend_witness:
  "fst (add_transaction demo_prims demo_tx1 demo_ledger) \<and>
   demo_input \<in> set (inputs demo_tx1) \<and> demo_input \<in> set (inputs demo_tx2) \<and>
   get_utxo_id demo_input = get_utxo_id demo_input \<and>
   \<not> fst (add_transaction demo_prims demo_tx2
            (snd (add_transaction demo_prims demo_tx1 demo_ledger)))"
proof -
  have a: "fst (add_transaction demo_prims demo_tx1 demo_ledger)" by (rule demo_tx1_accepted)
  have b: "demo_input \<in> set (inputs demo_tx1)" by (simp add: demo_tx1_def)
  have c: "demo_input \<in> set (inputs demo_tx2)" by (simp add: demo_tx2_def)
  from no_double_spend[OF a b c refl] a b c show ?thesis by simp
qed

text \<open>
  The consequence for the mempool: when the UTXO ids referenced by different pending
  transactions are disjoint, they still are after an accepted \<open>add_transaction\<close>.
\<close>

lemma validate_utxos_loop_unused:
  "validate_utxos_loop s used ins tot = Some x \<Longrightarrow> inp \<in> set ins \<Longrightarrow> get_utxo_id inp \<notin> used"
  by (induction ins arbitrary: tot) (auto simp: Let_def split: option.splits if_splits)

lemma add_transaction_mempool_disjoint:
  assumes "mempool_disjoint (pending_transactions bc)" and "fst (add_transaction P t bc)"
  shows "mempool_disjoint (pending_transactions (snd (add_transaction P t bc)))"
proof -
  let ?old = "pending_transactions bc"
  have pend: "pending_transactions (snd (add_transaction P t bc)) = ?old @ [t]"
    using assms(2) by (simp add: add_transaction_def split: if_splits)
  have new: "get_utxo_id ` set (inputs (?old ! i)) \<inter> get_utxo_id ` set (inputs t) = {}"
    if i: "i < length ?old" for i
  proof (cases "inputs t = []")
    case True
    then show ?thesis by simp
  next
    case False
    with assms(2) have "validate_transaction_utxos bc t"
      by (simp add: add_transaction_def split: if_splits)
    then obtain x where
      x: "validate_utxos_loop (utxo_set bc) (pending_used_utxos ?old) (inputs t) 0 = Some x"
      by (auto simp: validate_transaction_utxos_def split: option.splits)
    have "get_utxo_id ` set (inputs (?old ! i)) \<subseteq> pending_used_utxos ?old"
      using i by (force simp: pending_used_utxos_def)
    moreover have "get_utxo_id ` set (inputs t) \<inter> pending_used_utxos ?old = {}"
      using validate_utxos_loop_unused[OF x] by auto
    ultimately show ?thesis by blast
  qed
  show ?thesis
    unfolding pend mempool_disjoint_def
  proof (intro allI impI)
    fix i j assume ij: "i < j \<and> j < length (?old @ [t])"
    show "get_utxo_id ` set (inputs ((?old @ [t]) ! i))
            \<inter> get_utxo_id ` set (inputs ((?old @ [t]) ! j)) = {}"
    proof (cases "j < length ?old")
      case True
      with ij assms(1) show ?thesis by (simp add: mempool_disjoint_def nth_append)
    next
      case False
      with ij have j: "j = length ?old" and i: "i < length ?old" by simp_all
      from new[OF i] j i show ?thesis by (simp add: nth_append)
    qed
  qed
qed

text \<open>
  Claim C6. When \<open>add_transaction\<close> returns false, the ledger after the call is the
  ledger before it: chain, UTXO set, mempool and every other field.
\<close>

theorem add_transaction_reject_unchanged:
  "\<not> fst (add_transaction P t bc) \<Longrightarrow> snd (add_transaction P t bc) = bc"
  by (simp add: add_transaction_def split: if_splits)

text \<open>The rejected double spend leaves the ledger as the first transaction left it.\<close>

theorem add_transaction_reject_unchanged_witness:
  "\<not> fst (add_transaction demo_prims demo_tx2
            (snd (add_transaction demo_prims demo_tx1 demo_ledger))) \<and>
   snd (add_transaction demo_prims demo_tx2
            (snd (add_transaction demo_prims demo_tx1 demo_ledger)))
     = snd (add_transaction demo_prims demo_tx1 demo_ledger)"
proof -
  note r = demo_tx2_rejected
  from add_transaction_reject_unchanged[OF r] r show ?thesis by simp
qed

text \<open>
  Claim C9. When \<open>add_transaction\<close> returns true, the UTXO set is unchanged, so the
  balance of every address is unchanged; the mempool is the old one followed by the
  transaction, and the chain is unchanged.
\<close>

theorem add_transaction_accept_frame:
  "fst (add_transaction P t bc) \<Longrightarrow>
     utxo_set (snd (add_transaction P t bc)) = utxo_set bc \<and>
     bc_get_balance (snd (add_transaction P t bc)) a = bc_get_balance bc a \<and>
     pending_transactions (snd (add_transaction P t bc)) = pending_transactions bc @ [t] \<and>
     chain (snd (add_transaction P t bc)) = chain bc"
  by (simp add: add_transaction_def bc_get_balance_def split: if_splits)

text \<open>The owner of the output of 50 still has a balance of 50 after the spend is pending.\<close>

theorem add_transaction_accept_frame_witness:
  "fst (add_transaction demo_prims demo_tx1 demo_ledger) \<and>
   utxo_set (snd (add_transaction demo_prims demo_tx1 demo_ledger)) = utxo_set demo_ledger \<and>
   bc_get_balance (snd (add_transaction demo_prims demo_tx1 demo_ledger)) ''addr-k1'' = 50 \<and>
   pending_transactions (snd (add_transaction demo_prims demo_tx1 demo_ledger)) = [demo_tx1]"
proof -
  have b: "bc_get_balance demo_ledger ''addr-k1'' = 50"
    by (simp add: bc_get_balance_def get_balance_def get_utxos_by_address_def demo_ledger_def
        UTXO_init_def)
  have p: "pending_transactions demo_ledger = []" by (simp add: demo_ledger_def)
  from add_transaction_accept_frame[OF demo_tx1_accepted, of "''addr-k1''"] demo_tx1_accepted b p
  show ?thesis by simp
qed

subsection \<open>Fees\<close>

lemma total_input_loop_sum:
  "total_input_loop s ins tot =
     tot + sum_list (map utxo_amount (List.map_filter (\<lambda>inp. map_of s (get_utxo_id inp)) ins))"
  by (induction ins arbitrary: tot) (auto simp: List.map_filter_simps split: option.splits)

text \<open>
  Claim C7. \<open>calculate_fee\<close> is 0 for a coinbase transaction; otherwise it is the
  maximum of 0 and the difference between the sum of the amounts of the UTXOs of the
  set that the inputs reference (an input whose UTXO id is not in the set adds nothing,
  an id referenced by two inputs is added twice) and the sum of the output amounts.
\<close>

theorem calculate_fee_spec:
  "calculate_fee t s =
     (if is_coinbase t then 0
      else max 0 (sum_list (map utxo_amount
                     (List.map_filter (\<lambda>inp. map_of s (get_utxo_id inp)) (inputs t)))
                  - sum_list (map amount (outputs t))))"
  by (simp add: calculate_fee_def get_total_input_value_def get_total_output_value_def
      total_input_loop_sum)

subsection \<open>Block construction\<close>

lemma transaction_hashes_loop_missing_id:
  "tx_data \<in> set txs \<Longrightarrow> d_transaction_id tx_data = None \<Longrightarrow>
   transaction_hashes_loop txs acc = Inl (NameError ''hashlib'')"
  by (induction txs arbitrary: acc) (auto split: option.splits)

text \<open>
  Claim C8 says that the construction of a block succeeds when a transaction
  dictionary has no \<open>transaction_id\<close>, a content hash standing in for the id. In the
  code the content hash is computed through \<open>hashlib\<close>, a name that blockchain.py never
  binds: for every transaction list with such a dictionary the construction raises
  NameError instead.
\<close>

theorem block_init_missing_id_raises:
  "tx_data \<in> set txs \<Longrightarrow> d_transaction_id tx_data = None \<Longrightarrow>
   Block_init P now idx txs prev ts n = Inl (NameError ''hashlib'')"
  by (auto simp: Block_init_def calculate_merkle_root_def
      dest: transaction_hashes_loop_missing_id[where acc = "[]"])

text \<open>The block \<open>Block(1, [d], "0")\<close> for a dictionary \<open>d\<close> with no \<open>transaction_id\<close>.\<close>

theorem block_init_missing_id_raises_witness:
  "demo_dict_without_id \<in> set [demo_dict_without_id] \<and>
   d_transaction_id demo_dict_without_id = None \<and>
   Block_init demo_prims ''1700000000'' 1 [demo_dict_without_id] ''0'' None 0
     = Inl (NameError ''hashlib'')"
proof -
  have a: "demo_dict_without_id \<in> set [demo_dict_without_id]" by simp
  have b: "d_transaction_id demo_dict_without_id = None" by (simp add: demo_dict_without_id_def)
  from block_init_missing_id_raises[OF a b] a b show ?thesis by simp
qed

subsection \<open>Difficulty adjustment\<close>

text \<open>
  Claim C5, amended. Off a boundary (the height is not a positive multiple of
  \<open>ADJUSTMENT_INTERVAL\<close>) the result is the difficulty of the last header (the initial
  difficulty when there is none) and the adjuster is unchanged. On a boundary where
  the headers at heights \<open>h - ADJUSTMENT_INTERVAL\<close> and \<open>h - 1\<close> are found and their
  timestamps differ, the result is the difficulty of the header at \<open>h - 1\<close> times the
  target timespan over the actual timespan, clamped to the two factors.
\<close>

theorem calculate_next_difficulty_spec:
  "(\<not> should_adjust_difficulty h \<longrightarrow>
      calculate_next_difficulty da now h = Inr (current_difficulty da, da)) \<and>
   (should_adjust_difficulty h \<and>
    find_block_by_height da (h - ADJUSTMENT_INTERVAL) = Some start_block \<and>
    find_block_by_height da (h - 1) = Some end_block \<and>
    bh_timestamp end_block - bh_timestamp start_block \<noteq> 0 \<longrightarrow>
      (\<exists>da'. calculate_next_difficulty da now h =
         Inr (bh_difficulty end_block *
                max MIN_ADJUSTMENT_FACTOR
                  (min MAX_ADJUSTMENT_FACTOR
                     (TARGET_TIMESPAN / (bh_timestamp end_block - bh_timestamp start_block))),
              da') \<and>
         block_headers da' = block_headers da))"
  by (simp add: calculate_next_difficulty_def Let_def)

text \<open>
  Height 5 is off a boundary; at height 2016 the 2016 blocks took half the target
  timespan, the ratio 2 is inside the clamp and the difficulty 2 becomes 4.
\<close>

theorem calculate_next_difficulty_spec_witness:
  "\<not> should_adjust_difficulty 5 \<and>
   calculate_next_difficulty (demo_adjuster 605800) 0 5 = Inr (2, demo_adjuster 605800) \<and>
   should_adjust_difficulty 2016 \<and>
   find_block_by_height (demo_adjuster 605800) (2016 - ADJUSTMENT_INTERVAL)
     = Some (demo_header 0 1000 2) \<and>
   find_block_by_height (demo_adjuster 605800) (2016 - 1) = Some (demo_header 2015 605800 2) \<and>
   bh_timestamp (demo_header 2015 605800 2) - bh_timestamp (demo_header 0 1000 2) \<noteq> 0 \<and>
   (\<exists>da'. calculate_next_difficulty (demo_adjuster 605800) 0 2016 = Inr (4, da'))"
proof -
  have n: "\<not> should_adjust_difficulty 5"
    by (simp add: should_adjust_difficulty_def ADJUSTMENT_INTERVAL_def)
  have y: "should_adjust_difficulty 2016"
    by (simp add: should_adjust_difficulty_def ADJUSTMENT_INTERVAL_def)
  have s: "find_block_by_height (demo_adjuster 605800) (2016 - ADJUSTMENT_INTERVAL)
     = Some (demo_header 0 1000 2)"
    by (simp add: find_block_by_height_def demo_adjuster_def demo_header_def
        ADJUSTMENT_INTERVAL_def)
  have e: "find_block_by_height (demo_adjuster 605800) (2016 - 1)
     = Some (demo_header 2015 605800 2)"
    by (simp add: find_block_by_height_def demo_adjuster_def demo_header_def)
  have d: "bh_timestamp (demo_header 2015 605800 2) - bh_timestamp (demo_header 0 1000 2) \<noteq> 0"
    by (simp add: demo_header_def)
  have c: "current_difficulty (demo_adjuster 605800) = 2"
    by (simp add: current_difficulty_def demo_adjuster_def demo_header_def)
  have v: "bh_difficulty (demo_header 2015 605800 2) *
                max MIN_ADJUSTMENT_FACTOR
                  (min MAX_ADJUSTMENT_FACTOR
                     (TARGET_TIMESPAN / (bh_timestamp (demo_header 2015 605800 2)
                        - bh_timestamp (demo_header 0 1000 2)))) = 4"
    by (simp add: demo_header_def MIN_ADJUSTMENT_FACTOR_def MAX_ADJUSTMENT_FACTOR_def
        TARGET_TIMESPAN_def)
  from calculate_next_difficulty_spec[of 5 "demo_adjuster 605800" 0] n c
  have 1: "calculate_next_difficulty (demo_adjuster 605800) 0 5 = Inr (2, demo_adjuster 605800)"
    by simp
  from calculate_next_difficulty_spec[of 2016 "demo_adjuster 605800" 0 "demo_header 0 1000 2"
      "demo_header 2015 605800 2"] y s e d v
  have 2: "\<exists>da'. calculate_next_difficulty (demo_adjuster 605800) 0 2016 = Inr (4, da')"
    by auto
  from n 1 y s e d 2 show ?thesis by blast
qed

text \<open>
  Claim C5 as stated fails where the two boundary headers carry the same timestamp:
  both headers are found, the height is on a boundary, and the division of the target
  timespan by the actual timespan raises ZeroDivisionError, so no difficulty is
  returned.
\<close>

theorem next_difficulty_zero_timespan:
  "should_adjust_difficulty 2016 \<and>
   find_block_by_height (demo_adjuster 1000) (2016 - ADJUSTMENT_INTERVAL)
     = Some (demo_header 0 1000 2) \<and>
   find_block_by_height (demo_adjuster 1000) (2016 - 1) = Some (demo_header 2015 1000 2) \<and>
   calculate_next_difficulty (demo_adjuster 1000) 0 2016 = Inl ZeroDivisionError"
  by (simp add: should_adjust_difficulty_def ADJUSTMENT_INTERVAL_def find_block_by_height_def
      demo_adjuster_def demo_header_def calculate_next_difficulty_def)

subsection \<open>The UTXO set: update_from_transaction\<close>

lemma digit_char_inj: "a < 10 \<Longrightarrow> b < 10 \<Longrightarrow> digit_char a = digit_char b \<Longrightarrow> a = b"
proof -
  assume a: "a < 10" and b: "b < 10" and e: "digit_char a = digit_char b"
  have d: "distinct ''0123456789''" by simp
  have "a < length ''0123456789''" "b < length ''0123456789''" using a b by simp_all
  with d e show "a = b" unfolding digit_char_def by (simp add: nth_eq_iff_index_eq)
qed

lemma str_nat_nonempty: "str_nat n \<noteq> []"
  by (subst str_nat.simps) simp

lemma str_nat_inj: "str_nat m = str_nat n \<Longrightarrow> m = n"
proof (induction m arbitrary: n rule: str_nat.induct)
  case (1 m)
  show ?case
  proof (cases "m < 10")
    case True
    then have m: "str_nat m = [digit_char m]" by simp
    show ?thesis
    proof (cases "n < 10")
      case True
      with m "1.prems" \<open>m < 10\<close> show ?thesis by (simp add: digit_char_inj)
    next
      case False
      then have "str_nat n = str_nat (n div 10) @ [digit_char (n mod 10)]"
        by (subst str_nat.simps) simp
      with m "1.prems" str_nat_nonempty[of "n div 10"] show ?thesis by simp
    qed
  next
    case False
    then have m: "str_nat m = str_nat (m div 10) @ [digit_char (m mod 10)]"
      by (subst str_nat.simps) simp
    show ?thesis
    proof (cases "n < 10")
      case True
      then have "str_nat n = [digit_char n]" by simp
      with m "1.prems" str_nat_nonempty[of "m div 10"] show ?thesis by simp
    next
      case n: False
      then have "str_nat n = str_nat (n div 10) @ [digit_char (n mod 10)]"
        by (subst str_nat.simps) simp
      with m "1.prems" have e1: "str_nat (m div 10) = str_nat (n div 10)"
        and e2: "digit_char (m mod 10) = digit_char (n mod 10)" by simp_all
      from "1.IH"[OF False e1] have "m div 10 = n div 10" .
      moreover from e2 have "m mod 10 = n mod 10" by (intro digit_char_inj) simp_all
      ultimately show ?thesis by (metis div_mult_mod_eq)
    qed
  qed
qed

lemma str_int_nat_inj: "str_int (int i) = str_int (int j) \<Longrightarrow> i = j"
  by (simp add: str_int_def str_nat_inj)

lemma output_key_inj: "output_key tid i = output_key tid j \<Longrightarrow> i = j"
  by (simp add: output_key_def str_int_nat_inj)

lemma utxo_id_UTXO_init: "utxo_get_utxo_id (UTXO_init tid (int i) a r) = output_key tid i"
  by (simp add: utxo_get_utxo_id_def UTXO_init_def output_key_def)

lemma map_of_add_utxo: "map_of (add_utxo u s) = (map_of s)(utxo_get_utxo_id u \<mapsto> u)"
  by (simp add: add_utxo_def update_conv')

lemma add_outputs_other:
  "\<forall>j < length outs. k \<noteq> output_key tid (i + j) \<Longrightarrow>
   map_of (add_outputs tid i outs s) k = map_of s k"
proof (induction outs arbitrary: i s)
  case Nil
  then show ?case by simp
next
  case (Cons out outs)
  have "\<forall>j<length outs. k \<noteq> output_key tid (Suc i + j)"
    using Cons.prems by auto
  moreover have "k \<noteq> output_key tid i" using Cons.prems by force
  ultimately show ?case
    by (simp add: Cons.IH map_of_add_utxo utxo_id_UTXO_init)
qed

lemma add_outputs_at:
  "j < length outs \<Longrightarrow>
   map_of (add_outputs tid i outs s) (output_key tid (i + j)) =
     Some (UTXO_init tid (int (i + j)) (amount (outs ! j)) (recipient_address (outs ! j)))"
proof (induction outs arbitrary: i s j)
  case Nil
  then show ?case by simp
next
  case (Cons out outs)
  show ?case
  proof (cases j)
    case 0
    have "\<forall>j'<length outs. output_key tid i \<noteq> output_key tid (Suc i + j')"
      by (auto dest: output_key_inj)
    then show ?thesis
      using 0 by (simp add: add_outputs_other map_of_add_utxo utxo_id_UTXO_init)
  next
    case (Suc j')
    with Cons.prems have "j' < length outs" by simp
    from Cons.IH[OF this, of "Suc i"] Suc show ?thesis by simp
  qed
qed

lemma spend_inputs_result:
  "\<exists>s'. spend_inputs ins s = Inr s' \<and>
        (\<forall>k. map_of s' k = (if k \<in> get_utxo_id ` set ins then None else map_of s k))"
proof (induction ins arbitrary: s)
  case Nil
  then show ?case by simp
next
  case (Cons inp ins)
  let ?k = "get_utxo_id inp"
  show ?case
  proof (cases "contains s ?k")
    case False
    then have "map_of s ?k = None" by (simp add: contains_def)
    with Cons.IH[of s] False show ?thesis by (auto simp: Let_def)
  next
    case True
    then obtain u where u: "map_of s ?k = Some u" by (auto simp: contains_def)
    let ?s1 = "AList.delete ?k (AList.update ?k (u\<lparr>is_spent := True\<rparr>) s)"
    have step: "spend_inputs (inp # ins) s = spend_inputs ins ?s1"
      using True u by (simp add: Let_def getitem_def delitem_def contains_def update_conv')
    have m1: "map_of ?s1 = (map_of s)(?k := None)"
      by (simp add: delete_conv' update_conv')
    from Cons.IH[of ?s1] obtain s' where
      s': "spend_inputs ins ?s1 = Inr s'"
      "\<forall>k. map_of s' k = (if k \<in> get_utxo_id ` set ins then None else map_of ?s1 k)"
      by blast
    show ?thesis
      using s' step by (auto simp: m1)
  qed
qed

text \<open>
  Claim C10, amended. \<open>update_from_transaction\<close> raises no error, whatever the inputs
  reference. Afterwards every UTXO id referenced by an input is absent from the set,
  unless it is the id of one of the transaction's own outputs (the outputs are added
  after the inputs are removed); and for every output index \<open>i\<close> the set holds, under
  the id of (transaction id, \<open>i\<close>), an unspent UTXO with the amount and the recipient of
  output \<open>i\<close>.
\<close>

theorem update_from_transaction_spec:
  "\<exists>s'. update_from_transaction t s = Inr s' \<and>
     (\<forall>inp \<in> set (inputs t).
        get_utxo_id inp \<notin> output_key (transaction_id t) ` {..<length (outputs t)} \<longrightarrow>
        \<not> contains s' (get_utxo_id inp)) \<and>
     (\<forall>i < length (outputs t).
        map_of s' (output_key (transaction_id t) i) =
          Some \<lparr>utxo_transaction_id = transaction_id t, utxo_output_index = int i,
                utxo_amount = amount (outputs t ! i),
                utxo_recipient_address = recipient_address (outputs t ! i),
                is_spent = False\<rparr>)"
proof -
  from spend_inputs_result[of "inputs t" s] obtain s1 where
    s1: "spend_inputs (inputs t) s = Inr s1"
    "\<forall>k. map_of s1 k = (if k \<in> get_utxo_id ` set (inputs t) then None else map_of s k)"
    by blast
  let ?s' = "add_outputs (transaction_id t) 0 (outputs t) s1"
  have r: "update_from_transaction t s = Inr ?s'"
    by (simp add: update_from_transaction_def s1)
  have a: "\<not> contains ?s' (get_utxo_id inp)"
    if "inp \<in> set (inputs t)"
      "get_utxo_id inp \<notin> output_key (transaction_id t) ` {..<length (outputs t)}" for inp
  proof -
    have "\<forall>j<length (outputs t). get_utxo_id inp \<noteq> output_key (transaction_id t) (0 + j)"
      using that(2) by auto
    then have "map_of ?s' (get_utxo_id inp) = map_of s1 (get_utxo_id inp)"
      by (rule add_outputs_other)
    also have "\<dots> = None" using s1(2) that(1) by simp
    finally show ?thesis by (simp add: contains_def)
  qed
  have b: "map_of ?s' (output_key (transaction_id t) i) =
          Some \<lparr>utxo_transaction_id = transaction_id t, utxo_output_index = int i,
                utxo_amount = amount (outputs t ! i),
                utxo_recipient_address = recipient_address (outputs t ! i),
                is_spent = False\<rparr>" if "i < length (outputs t)" for i
    using add_outputs_at[OF that, of "transaction_id t" 0 s1] by (simp add: UTXO_init_def)
  from r a b show ?thesis by blast
qed

lemma output_key_0: "output_key tid 0 = tid @ '':0''"
  by (simp add: output_key_def str_int_def digit_char_def)

lemma output_key_1: "output_key tid 1 = tid @ '':1''"
  by (simp add: output_key_def str_int_def digit_char_def)

lemma output_key_Suc_0: "output_key tid (Suc 0) = tid @ '':1''"
  by (simp add: output_key_def str_int_def digit_char_def)

text \<open>
  The spend of the output \<open>aa:0\<close>: it is gone afterwards, and the two outputs of the
  transaction are in the set.
\<close>

theorem update_from_transaction_spec_witness:
  "\<exists>s'. update_from_transaction demo_tx1 (utxo_set demo_ledger) = Inr s' \<and>
     demo_input \<in> set (inputs demo_tx1) \<and>
     get_utxo_id demo_input \<notin> output_key (transaction_id demo_tx1) ` {..<length (outputs demo_tx1)} \<and>
     \<not> contains s' ''aa:0'' \<and>
     map_of s' ''t1:0'' = Some (UTXO_init ''t1'' 0 20 ''bob'') \<and>
     map_of s' ''t1:1'' = Some (UTXO_init ''t1'' 1 29 ''addr-k1'')"
proof -
  from update_from_transaction_spec[of demo_tx1 "utxo_set demo_ledger"] obtain s' where
    r: "update_from_transaction demo_tx1 (utxo_set demo_ledger) = Inr s'"
    and a: "\<forall>inp \<in> set (inputs demo_tx1).
        get_utxo_id inp \<notin> output_key (transaction_id demo_tx1) ` {..<length (outputs demo_tx1)} \<longrightarrow>
        \<not> contains s' (get_utxo_id inp)"
    and b: "\<forall>i < length (outputs demo_tx1).
        map_of s' (output_key (transaction_id demo_tx1) i) =
          Some \<lparr>utxo_transaction_id = transaction_id demo_tx1, utxo_output_index = int i,
                utxo_amount = amount (outputs demo_tx1 ! i),
                utxo_recipient_address = recipient_address (outputs demo_tx1 ! i),
                is_spent = False\<rparr>"
    by blast
  have i: "demo_input \<in> set (inputs demo_tx1)" by (simp add: demo_tx1_def)
  have n: "get_utxo_id demo_input \<notin>
             output_key (transaction_id demo_tx1) ` {..<length (outputs demo_tx1)}"
    by (simp add: demo_tx1_def demo_input_id lessThan_Suc output_key_0 output_key_Suc_0)
  from a i n have c: "\<not> contains s' ''aa:0''" by (auto simp: demo_input_id)
  from b[rule_format, of 0] have b0: "map_of s' ''t1:0'' = Some (UTXO_init ''t1'' 0 20 ''bob'')"
    by (simp add: demo_tx1_def output_key_0 UTXO_init_def)
  from b[rule_format, of 1] have b1: "map_of s' ''t1:1'' = Some (UTXO_init ''t1'' 1 29 ''addr-k1'')"
    by (simp add: demo_tx1_def output_key_Suc_0 UTXO_init_def)
  from r i n c b0 b1 show ?thesis by blast
qed

text \<open>
  Claim C10 as stated fails for a transaction with an input that references one of
  its own output ids (a \<open>Transaction\<close> rebuilt by \<open>from_dict\<close> carries whatever id its
  dictionary holds): the referenced id \<open>t:0\<close> is removed and then added again, so it is
  present after the update.
\<close>

theorem update_from_transaction_self_reference:
  "update_from_transaction demo_self_tx [(''t:0'', UTXO_init ''t'' 0 7 ''addr-k1'')]
     = Inr [(''t:0'', UTXO_init ''t'' 0 5 ''addr-k1'')] \<and>
   get_utxo_id (hd (inputs demo_self_tx)) = ''t:0'' \<and>
   contains [(''t:0'', UTXO_init ''t'' 0 5 ''addr-k1'')] (get_utxo_id (hd (inputs demo_self_tx)))"
  by (simp add: update_from_transaction_def demo_self_tx_def Let_def get_utxo_id_def str_int_def
      digit_char_def contains_def getitem_def delitem_def add_utxo_def utxo_get_utxo_id_def
      UTXO_init_def)

subsection \<open>Proof of work: mine_block\<close>

lemma mine_block_result:
  assumes "mine_block P d b = Some b'"
  shows "py_prefix (hash b') d = pow_target d \<and>
         (hash b = calculate_hash P b \<or> nonce b' \<noteq> nonce b \<longrightarrow> hash b' = calculate_hash P b') \<and>
         nonce b \<le> nonce b' \<and>
         b' = b\<lparr>nonce := nonce b', hash := hash b'\<rparr>"
proof -
  let ?Q = "\<lambda>((P, d), b) b'.
         py_prefix (hash b') d = pow_target d \<and>
         (hash b = calculate_hash P b \<or> nonce b' \<noteq> nonce b \<longrightarrow> hash b' = calculate_hash P b') \<and>
         nonce b \<le> nonce b' \<and>
         b' = b\<lparr>nonce := nonce b', hash := hash b'\<rparr>"
  have "?Q ((P, d), b) b'"
  proof (rule mine_block.raw_induct[OF _ assms])
    fix mb :: "prims \<Rightarrow> int \<Rightarrow> block \<Rightarrow> block option" and P d b b'
    assume IH: "\<And>P d b y. mb P d b = Some y \<Longrightarrow> ?Q ((P, d), b) y"
      and eq: "(if py_prefix (hash b) d \<noteq> pow_target d
                then mb P d (let b1 = b\<lparr>nonce := nonce b + 1\<rparr>
                             in b1\<lparr>hash := calculate_hash P b1\<rparr>)
                else Some b) = Some b'"
    show "?Q ((P, d), b) b'"
    proof (cases "py_prefix (hash b) d \<noteq> pow_target d")
      case False
      with eq have "b' = b" by simp
      with False show ?thesis by simp
    next
      case True
      let ?b1 = "b\<lparr>nonce := nonce b + 1\<rparr>"
      let ?b2 = "?b1\<lparr>hash := calculate_hash P ?b1\<rparr>"
      from True eq have "mb P d ?b2 = Some b'" by (simp add: Let_def)
      from IH[OF this] have ih: "py_prefix (hash b') d = pow_target d \<and>
         (hash ?b2 = calculate_hash P ?b2 \<or> nonce b' \<noteq> nonce ?b2 \<longrightarrow> hash b' = calculate_hash P b') \<and>
         nonce ?b2 \<le> nonce b' \<and>
         b' = ?b2\<lparr>nonce := nonce b', hash := hash b'\<rparr>" by simp
      have c: "hash ?b2 = calculate_hash P ?b2" by (simp add: calculate_hash_def)
      from ih have 1: "py_prefix (hash b') d = pow_target d" by (rule conjunct1)
      from ih c have 2: "hash b' = calculate_hash P b'" by blast
      from ih have 3: "nonce b + 1 \<le> nonce b'" by simp
      from ih have "b' = ?b2\<lparr>nonce := nonce b', hash := hash b'\<rparr>" by blast
      then have 4: "b' = b\<lparr>nonce := nonce b', hash := hash b'\<rparr>" by simp
      from 3 have 5: "nonce b \<le> nonce b'" by simp
      from 1 2 4 5 show ?thesis by simp
    qed
  qed
  then show ?thesis by simp
qed

lemma mine_block_difficulty_zero: "mine_block P 0 b = Some b"
  by (subst mine_block.simps) (simp add: py_prefix_def pow_target_def)

lemma calculate_hash_ignores_hash:
  "calculate_hash P (b\<lparr>hash := h\<rparr>) = calculate_hash P b"
  by (simp add: calculate_hash_def)

lemma mine_block_returns:
  "py_prefix (calculate_hash P (b\<lparr>nonce := nonce b + int (Suc k)\<rparr>)) d = pow_target d \<Longrightarrow>
   \<exists>b'. mine_block P d b = Some b'"
proof (induction k arbitrary: b)
  case 0
  let ?b1 = "b\<lparr>nonce := nonce b + 1\<rparr>"
  let ?b2 = "?b1\<lparr>hash := calculate_hash P ?b1\<rparr>"
  have g: "py_prefix (hash ?b2) d = pow_target d" using 0 by simp
  have "mine_block P d ?b2 = Some ?b2"
    by (subst mine_block.simps) (simp only: g, simp)
  then show ?case
    by (subst mine_block.simps) (simp add: Let_def)
next
  case (Suc k)
  let ?b1 = "b\<lparr>nonce := nonce b + 1\<rparr>"
  let ?b2 = "?b1\<lparr>hash := calculate_hash P ?b1\<rparr>"
  have "?b2\<lparr>nonce := nonce ?b2 + int (Suc k)\<rparr>
          = (b\<lparr>nonce := nonce b + int (Suc (Suc k))\<rparr>)\<lparr>hash := calculate_hash P ?b1\<rparr>"
    by simp
  then have "calculate_hash P (?b2\<lparr>nonce := nonce ?b2 + int (Suc k)\<rparr>)
          = calculate_hash P (b\<lparr>nonce := nonce b + int (Suc (Suc k))\<rparr>)"
    by (simp only: calculate_hash_ignores_hash)
  with Suc.prems have "py_prefix (calculate_hash P (?b2\<lparr>nonce := nonce ?b2 + int (Suc k)\<rparr>)) d
                         = pow_target d" by simp
  from Suc.IH[OF this] obtain b' where "mine_block P d ?b2 = Some b'" by blast
  then show ?case
    by (subst mine_block.simps) (simp add: Let_def)
qed

text \<open>
  Claim C3, amended. For a difficulty \<open>d \<ge> 0\<close> and a block whose stored hash is the
  hash of its header fields when \<open>mine_block\<close> is called (as it is after the
  constructor), if \<open>mine_block\<close> returns then the first \<open>d\<close> characters of the hash
  are zeros and the hash is the hash of the header fields (index, merkle root, previous
  hash, timestamp, nonce).
\<close>

theorem mine_block_spec:
  assumes "0 \<le> d" and "mine_block P d b = Some b'" and "hash b = calculate_hash P b"
  shows "py_prefix (hash b') d = pow_target d \<and>
         take (nat d) (hash b') = replicate (nat d) CHR ''0'' \<and>
         hash b' = calculate_hash P b'"
proof -
  from mine_block_result[OF assms(2)] assms(3)
  have 1: "py_prefix (hash b') d = pow_target d" and 2: "hash b' = calculate_hash P b'"
    by blast+
  from 1 assms(1) have "take (nat d) (hash b') = replicate (nat d) CHR ''0''"
    by (simp add: py_prefix_def pow_target_def)
  with 1 2 show ?thesis by simp
qed

lemma demo_block_mined:
  "mine_block demo_prims 1 demo_block = Some (demo_block\<lparr>nonce := 3, hash := ''0,1''\<rparr>)"
  by (simp add: mine_block.simps demo_block_def py_prefix_def pow_target_def calculate_hash_def
      calculate_block_hash_def calculate_sha256_def demo_prims_def str_int_def digit_char_def
      Let_def)

text \<open>A search of three steps: the nonces 1 and 2 fail, nonce 3 gives a hash with prefix 0.\<close>

theorem mine_block_spec_witness:
  "(0::int) \<le> 1 \<and>
   mine_block demo_prims 1 demo_block = Some (demo_block\<lparr>nonce := 3, hash := ''0,1''\<rparr>) \<and>
   hash demo_block = calculate_hash demo_prims demo_block \<and>
   take (nat 1) (hash (demo_block\<lparr>nonce := 3, hash := ''0,1''\<rparr>)) = replicate (nat 1) CHR ''0'' \<and>
   hash (demo_block\<lparr>nonce := 3, hash := ''0,1''\<rparr>)
     = calculate_hash demo_prims (demo_block\<lparr>nonce := 3, hash := ''0,1''\<rparr>)"
proof -
  have a: "(0::int) \<le> 1" by simp
  have c: "hash demo_block = calculate_hash demo_prims demo_block"
    by (simp add: demo_block_def calculate_hash_def calculate_block_hash_def
        calculate_sha256_def demo_prims_def str_int_def digit_char_def)
  from mine_block_spec[OF a demo_block_mined c] a demo_block_mined c show ?thesis by simp
qed

text \<open>
  Claim C3 as stated, for every block, fails whatever the hash function is: the loop
  tests the stored hash before it computes one, so a block whose stored hash already
  has the prefix (every block at difficulty 0) is returned as it is. Two blocks with
  the same header fields and different stored hashes (\<open>Block.from_dict\<close> stores the
  hash of its dictionary) cannot both carry the hash of their header.
\<close>

theorem mine_block_stale_hash:
  "\<not> (\<exists>P. \<forall>d b b'. 0 \<le> d \<and> mine_block P d b = Some b' \<longrightarrow>
          py_prefix (hash b') d = pow_target d \<and> hash b' = calculate_hash P b')"
proof
  assume "\<exists>P. \<forall>d b b'. 0 \<le> d \<and> mine_block P d b = Some b' \<longrightarrow>
          py_prefix (hash b') d = pow_target d \<and> hash b' = calculate_hash P b'"
  then obtain P where
    P: "\<And>d b b'. 0 \<le> d \<Longrightarrow> mine_block P d b = Some b' \<Longrightarrow> hash b' = calculate_hash P b'"
    by blast
  let ?b1 = "demo_block\<lparr>hash := ''x''\<rparr>" and ?b2 = "demo_block\<lparr>hash := ''y''\<rparr>"
  note m = mine_block_difficulty_zero[of P]
  from P[OF _ m[of ?b1]] have "calculate_hash P ?b1 = ''x''" by simp
  moreover from P[OF _ m[of ?b2]] have "calculate_hash P ?b2 = ''y''" by simp
  ultimately show False by (simp add: calculate_hash_ignores_hash)
qed

subsection \<open>Mining the mempool: mine_pending_transactions\<close>

lemma transaction_index_loop_other:
  "\<forall>q<length ds. d_transaction_id (ds ! q) \<noteq> Some tid \<Longrightarrow>
   transaction_index_loop bi i ds m tid = m tid"
proof (induction ds arbitrary: i m)
  case Nil
  then show ?case by simp
next
  case (Cons d ds)
  have "\<forall>q<length ds. d_transaction_id (ds ! q) \<noteq> Some tid"
    using Cons.prems by auto
  moreover have "d_transaction_id d \<noteq> Some tid" using Cons.prems by force
  ultimately show ?case
    by (auto simp: Cons.IH split: option.splits)
qed

lemma transaction_index_loop_at:
  "p < length ds \<Longrightarrow> d_transaction_id (ds ! p) = Some tid \<Longrightarrow> tid \<noteq> [] \<Longrightarrow>
   \<forall>q. p < q \<and> q < length ds \<longrightarrow> d_transaction_id (ds ! q) \<noteq> Some tid \<Longrightarrow>
   transaction_index_loop bi i ds m tid = Some (bi, i + p)"
proof (induction ds arbitrary: i m p)
  case Nil
  then show ?case by simp
next
  case (Cons d ds)
  show ?case
  proof (cases p)
    case 0
    have "\<forall>q<length ds. d_transaction_id (ds ! q) \<noteq> Some tid"
      using Cons.prems(4) 0 by auto
    then show ?thesis
      using 0 Cons.prems(2,3) by (simp add: transaction_index_loop_other)
  next
    case (Suc p')
    have a: "p' < length ds" using Cons.prems(1) Suc by simp
    have b: "d_transaction_id (ds ! p') = Some tid" using Cons.prems(2) Suc by simp
    have c: "\<forall>q. p' < q \<and> q < length ds \<longrightarrow> d_transaction_id (ds ! q) \<noteq> Some tid"
      using Cons.prems(4) Suc by auto
    from Cons.IH[OF a b Cons.prems(3) c] Suc show ?thesis by simp
  qed
qed

lemma update_from_transaction_total: "\<exists>s'. update_from_transaction t s = Inr s'"
  using spend_inputs_result[of "inputs t" s] by (auto simp: update_from_transaction_def)

lemma update_utxo_set_total: "\<exists>s'. update_utxo_set ts s = Inr s'"
proof (induction ts arbitrary: s)
  case Nil
  then show ?case by simp
next
  case (Cons t ts)
  from update_from_transaction_total[of t s] obtain s1 where "update_from_transaction t s = Inr s1"
    by blast
  with Cons.IH[of s1] show ?case by simp
qed

text \<open>
  \<open>_update_utxo_set\<close> is \<open>update_from_transaction\<close> applied to the transactions from
  left to right, each to the set the one before it left.
\<close>

lemma foldl_update_Inl:
  "foldl (\<lambda>r t. case r of Inl e \<Rightarrow> Inl e | Inr s \<Rightarrow> update_from_transaction t s) (Inl e) ts
     = Inl e"
  by (induction ts) simp_all

lemma update_utxo_set_foldl:
  "update_utxo_set ts s =
     foldl (\<lambda>r t. case r of Inl e \<Rightarrow> Inl e | Inr s \<Rightarrow> update_from_transaction t s) (Inr s) ts"
proof (induction ts arbitrary: s)
  case Nil
  then show ?case by simp
next
  case (Cons t ts)
  then show ?case
    by (cases "update_from_transaction t s") (simp_all add: foldl_update_Inl)
qed

lemma update_utxo_set_last_output:
  assumes "update_utxo_set (ts @ [t]) s = Inr s'" and "j < length (outputs t)"
  shows "map_of s' (output_key (transaction_id t) j) =
           Some (UTXO_init (transaction_id t) (int j) (amount (outputs t ! j))
                   (recipient_address (outputs t ! j)))"
proof -
  let ?f = "\<lambda>r t. case r of Inl e \<Rightarrow> Inl e | Inr s \<Rightarrow> update_from_transaction t s"
  from update_utxo_set_total[of ts s] obtain s1 where s1: "update_utxo_set ts s = Inr s1"
    by blast
  have "update_utxo_set (ts @ [t]) s = ?f (foldl ?f (Inr s) ts) t"
    by (simp add: update_utxo_set_foldl)
  also have "\<dots> = update_from_transaction t s1"
    using s1 by (simp add: update_utxo_set_foldl)
  finally have u: "update_from_transaction t s1 = Inr s'" using assms(1) by simp
  from spend_inputs_result[of "inputs t" s1] obtain s2 where
    s2: "spend_inputs (inputs t) s1 = Inr s2" by blast
  with u have "s' = add_outputs (transaction_id t) 0 (outputs t) s2"
    by (simp add: update_from_transaction_def)
  with add_outputs_at[OF assms(2), of "transaction_id t" 0 s2] show ?thesis by simp
qed

lemma transaction_hashes_loop_to_dict:
  "transaction_hashes_loop (map to_dict ts) acc = Inr (acc @ map transaction_id ts)"
  by (induction ts arbitrary: acc) (simp_all add: to_dict_def)

lemma Block_init_to_dict:
  "\<exists>b. Block_init P now idx (map to_dict ts) prev tstamp n = Inr b \<and>
       index b = idx \<and> transactions b = map to_dict ts \<and> nonce b = n \<and>
       hash b = calculate_hash P b"
  by (auto simp: Block_init_def calculate_merkle_root_def transaction_hashes_loop_to_dict
      Let_def calculate_hash_def)

text \<open>The fee of a transaction, and the reward transaction, written out.\<close>

lemma calculate_fee_unfold:
  "calculate_fee t s =
     (if is_coinbase t then 0
      else max 0 (sum_list (map utxo_amount
                     (List.map_filter (\<lambda>inp. map_of s (get_utxo_id inp)) (inputs t)))
                  - sum_list (map amount (outputs t))))"
  by (simp add: calculate_fee_def get_total_input_value_def get_total_output_value_def
      total_input_loop_sum)

lemma reward_transaction_unfold:
  "reward_transaction P now_tx address bc =
     \<lparr>inputs = [],
      outputs = [\<lparr>amount = mining_reward bc
                    + sum_list (map (\<lambda>tx. calculate_fee tx (utxo_set bc))
                                  (pending_transactions bc)),
                  recipient_address = address\<rparr>],
      timestamp = now_tx,
      block_height = Some (int (length (chain bc))),
      transaction_id =
        sha256_hexdigest P
          (json_dumps_transaction_data P []
             [(mining_reward bc
                 + sum_list (map (\<lambda>tx. calculate_fee tx (utxo_set bc))
                               (pending_transactions bc)), address)]
             now_tx (Some (int (length (chain bc)))))\<rparr>"
  by (simp add: reward_transaction_def create_coinbase_transaction_def Transaction_init_def
      Let_def tx_calculate_hash_def calculate_transaction_hash_def
      get_transaction_data_for_signature_def is_coinbase_def)

lemma mine_pending_transactions_unfold:
  assumes "chain bc \<noteq> []"
  shows "\<exists>nb s'.
     index nb = int (length (chain bc)) \<and> nonce nb = 0 \<and> hash nb = calculate_hash P nb \<and>
     transactions nb =
       map to_dict (pending_transactions bc @ [reward_transaction P now_tx address bc]) \<and>
     update_utxo_set (pending_transactions bc @ [reward_transaction P now_tx address bc])
       (utxo_set bc) = Inr s' \<and>
     mine_pending_transactions P now_tx now_block address bc =
       (case mine_block P (difficulty bc) nb of
          None \<Rightarrow> None
        | Some mined \<Rightarrow> Some (Inr (mined, ledger_after bc mined s')))"
proof -
  let ?rw = "reward_transaction P now_tx address bc"
  let ?txs = "pending_transactions bc @ [?rw]"
  from Block_init_to_dict[of P now_block "int (length (chain bc))" ?txs "hash (last (chain bc))" None 0]
  obtain nb where nb: "Block_init P now_block (int (length (chain bc))) (map to_dict ?txs)
                         (hash (last (chain bc))) None 0 = Inr nb"
    "index nb = int (length (chain bc))" "transactions nb = map to_dict ?txs" "nonce nb = 0"
    "hash nb = calculate_hash P nb"
    by blast
  from update_utxo_set_total[of ?txs "utxo_set bc"] obtain s' where
    s': "update_utxo_set ?txs (utxo_set bc) = Inr s'" by blast
  have "mine_pending_transactions P now_tx now_block address bc =
     (case mine_block P (difficulty bc) nb of
        None \<Rightarrow> None
      | Some mined \<Rightarrow> Some (Inr (mined, ledger_after bc mined s')))"
    using assms nb(1) s'
    by (simp add: mine_pending_transactions_def Let_def get_latest_block_def
        ledger_after_def split: option.splits)
  with nb(2,3,4,5) s' show ?thesis by blast
qed

lemma mined_block_fields:
  assumes "mine_block P d nb = Some mined"
  shows "index mined = index nb \<and> transactions mined = transactions nb"
proof -
  from mine_block_result[OF assms] have e: "mined = nb\<lparr>nonce := nonce mined, hash := hash mined\<rparr>"
    by blast
  have "index mined = index (nb\<lparr>nonce := nonce mined, hash := hash mined\<rparr>)"
    using e by simp
  moreover have "transactions mined = transactions (nb\<lparr>nonce := nonce mined, hash := hash mined\<rparr>)"
    using e by simp
  ultimately show ?thesis by simp
qed

text \<open>
  Claim C4, amended. On a ledger with a non-empty chain, a call of
  \<open>mine_pending_transactions\<close> that ends (the proof-of-work search finds a nonce)
  raises no error and returns a block \<open>blk\<close> such that: the chain is the old chain
  followed by \<open>blk\<close>; the index of \<open>blk\<close> is the old length of the chain; its
  transactions are the dictionaries of the mempool transactions followed by that of
  one coinbase transaction \<open>reward\<close>, which has no input, one output that pays the
  mining reward plus the sum of the fees of the mempool transactions (each fee taken
  against the UTXO set before the call) to the reward address, the time of its
  creation as timestamp, the index of \<open>blk\<close> as block height and the hash of these
  data as id; the UTXO set is the old one after \<open>update_from_transaction\<close> for each of
  these transactions in order, the coinbase last, so that it holds the coinbase output
  unspent; the transaction index maps every non-empty transaction id that occurs at
  one position of the block only to the block index and that position; and the mempool
  is empty.
\<close>

theorem mine_pending_transactions_spec:
  assumes "chain bc \<noteq> []"
    and "mine_pending_transactions P now_tx now_block address bc \<noteq> None"
  shows "\<exists>blk bc' reward total_fees.
     mine_pending_transactions P now_tx now_block address bc = Some (Inr (blk, bc')) \<and>
     chain bc' = chain bc @ [blk] \<and>
     index blk = int (length (chain bc)) \<and>
     total_fees =
       sum_list (map (\<lambda>tx. if is_coinbase tx then 0
                            else max 0 (sum_list (map utxo_amount
                                    (List.map_filter
                                       (\<lambda>inp. map_of (utxo_set bc) (get_utxo_id inp))
                                       (inputs tx)))
                                  - sum_list (map amount (outputs tx))))
                     (pending_transactions bc)) \<and>
     reward =
       \<lparr>inputs = [],
        outputs = [\<lparr>amount = mining_reward bc + total_fees, recipient_address = address\<rparr>],
        timestamp = now_tx,
        block_height = Some (index blk),
        transaction_id =
          sha256_hexdigest P
            (json_dumps_transaction_data P [] [(mining_reward bc + total_fees, address)]
               now_tx (Some (index blk)))\<rparr> \<and>
     is_coinbase reward \<and>
     transactions blk = map to_dict (pending_transactions bc @ [reward]) \<and>
     foldl (\<lambda>r t. case r of Inl e \<Rightarrow> Inl e | Inr s \<Rightarrow> update_from_transaction t s)
       (Inr (utxo_set bc)) (pending_transactions bc @ [reward]) = Inr (utxo_set bc') \<and>
     map_of (utxo_set bc') (transaction_id reward @ '':0'') =
       Some \<lparr>utxo_transaction_id = transaction_id reward, utxo_output_index = 0,
             utxo_amount = mining_reward bc + total_fees,
             utxo_recipient_address = address, is_spent = False\<rparr> \<and>
     (\<forall>p tid. p < length (transactions blk) \<and>
        d_transaction_id (transactions blk ! p) = Some tid \<and> tid \<noteq> [] \<and>
        (\<forall>q. q < length (transactions blk) \<and> q \<noteq> p \<longrightarrow>
              d_transaction_id (transactions blk ! q) \<noteq> Some tid) \<longrightarrow>
        transaction_index bc' tid = Some (index blk, p)) \<and>
     pending_transactions bc' = []"
proof -
  let ?rw = "reward_transaction P now_tx address bc"
  let ?txs = "pending_transactions bc @ [?rw]"
  let ?fees = "sum_list (map (\<lambda>tx. if is_coinbase tx then 0
                            else max 0 (sum_list (map utxo_amount
                                    (List.map_filter
                                       (\<lambda>inp. map_of (utxo_set bc) (get_utxo_id inp))
                                       (inputs tx)))
                                  - sum_list (map amount (outputs tx))))
                     (pending_transactions bc))"
  from mine_pending_transactions_unfold[OF assms(1), of P now_tx address now_block]
  obtain nb s' where nb: "index nb = int (length (chain bc))" "transactions nb = map to_dict ?txs"
    and s': "update_utxo_set ?txs (utxo_set bc) = Inr s'"
    and unfold: "mine_pending_transactions P now_tx now_block address bc =
       (case mine_block P (difficulty bc) nb of
          None \<Rightarrow> None
        | Some mined \<Rightarrow> Some (Inr (mined, ledger_after bc mined s')))"
    by blast
  with assms(2) obtain mined where m: "mine_block P (difficulty bc) nb = Some mined"
    by (cases "mine_block P (difficulty bc) nb") auto
  from mined_block_fields[OF m] have mi: "index mined = index nb"
    and mt: "transactions mined = transactions nb" by blast+
  let ?bc' = "ledger_after bc mined s'"
  have r: "mine_pending_transactions P now_tx now_block address bc = Some (Inr (mined, ?bc'))"
    using unfold m by simp
  have idx: "transaction_index ?bc' tid = Some (index mined, p)"
    if a: "p < length (transactions mined)"
       "d_transaction_id (transactions mined ! p) = Some tid" "tid \<noteq> []"
      and u: "\<forall>q. q < length (transactions mined) \<and> q \<noteq> p \<longrightarrow>
              d_transaction_id (transactions mined ! q) \<noteq> Some tid" for p tid
  proof -
    from u have "\<forall>q. p < q \<and> q < length (transactions mined) \<longrightarrow>
              d_transaction_id (transactions mined ! q) \<noteq> Some tid" by auto
    from transaction_index_loop_at[OF a this, of "index mined" 0 "transaction_index bc"]
    show ?thesis by (simp add: update_transaction_index_def ledger_after_def)
  qed
  have fees: "sum_list (map (\<lambda>tx. calculate_fee tx (utxo_set bc)) (pending_transactions bc))
                = ?fees"
    by (simp add: calculate_fee_unfold)
  have rw: "?rw =
       \<lparr>inputs = [],
        outputs = [\<lparr>amount = mining_reward bc + ?fees, recipient_address = address\<rparr>],
        timestamp = now_tx,
        block_height = Some (index mined),
        transaction_id =
          sha256_hexdigest P
            (json_dumps_transaction_data P [] [(mining_reward bc + ?fees, address)]
               now_tx (Some (index mined)))\<rparr>"
    unfolding reward_transaction_unfold fees mi nb(1) ..
  have cb: "is_coinbase ?rw" by (simp add: reward_transaction_unfold is_coinbase_def)
  have f: "chain ?bc' = chain bc @ [mined]" "utxo_set ?bc' = s'" "pending_transactions ?bc' = []"
    by (simp_all add: ledger_after_def)
  have fo: "foldl (\<lambda>r t. case r of Inl e \<Rightarrow> Inl e | Inr s \<Rightarrow> update_from_transaction t s)
       (Inr (utxo_set bc)) ?txs = Inr s'"
    using s' by (simp only: update_utxo_set_foldl)
  have "0 < length (outputs ?rw)" by (simp add: reward_transaction_unfold)
  from update_utxo_set_last_output[OF s' this]
  have cu: "map_of s' (transaction_id ?rw @ '':0'') =
       Some \<lparr>utxo_transaction_id = transaction_id ?rw, utxo_output_index = 0,
             utxo_amount = mining_reward bc + ?fees,
             utxo_recipient_address = address, is_spent = False\<rparr>"
    by (simp add: output_key_0 UTXO_init_def reward_transaction_unfold fees)
  show ?thesis
    apply (rule exI[of _ mined], rule exI[of _ ?bc'], rule exI[of _ ?rw], rule exI[of _ ?fees])
    apply (intro conjI)
    subgoal by (rule r)
    subgoal by (rule f(1))
    subgoal using mi nb(1) by simp
    subgoal by (rule refl)
    subgoal by (rule rw)
    subgoal by (rule cb)
    subgoal using mt nb(2) by simp
    subgoal using fo f(2) by simp
    subgoal using cu f(2) by simp
    subgoal using idx by blast
    subgoal by (rule f(3))
    done
qed

lemma demo_ledger2_mined:
  "mine_pending_transactions demo_prims ''1700000005'' ''1700000006'' ''addr-m'' demo_ledger2
     \<noteq> None"
proof -
  have c: "chain demo_ledger2 \<noteq> []" by (simp add: demo_ledger2_def)
  from mine_pending_transactions_unfold[OF c, of demo_prims "''1700000005''" "''addr-m''"
      "''1700000006''"]
  obtain nb s' where nb: "index nb = int (length (chain demo_ledger2))" "nonce nb = 0"
    and unfold: "mine_pending_transactions demo_prims ''1700000005'' ''1700000006'' ''addr-m''
                   demo_ledger2 =
       (case mine_block demo_prims (difficulty demo_ledger2) nb of
          None \<Rightarrow> None
        | Some mined \<Rightarrow> Some (Inr (mined, ledger_after demo_ledger2 mined s')))"
    by blast
  have "py_prefix (calculate_hash demo_prims (nb\<lparr>nonce := nonce nb + int (Suc 2)\<rparr>)) 1
          = pow_target 1"
    using nb by (simp add: calculate_hash_def calculate_block_hash_def calculate_sha256_def
        demo_prims_def demo_ledger2_def str_int_def digit_char_def py_prefix_def pow_target_def)
  from mine_block_returns[OF this] obtain b' where "mine_block demo_prims 1 nb = Some b'"
    by blast
  moreover have "difficulty demo_ledger2 = 1" by (simp add: demo_ledger2_def demo_ledger_def)
  ultimately show ?thesis using unfold by simp
qed

lemma demo_ledger2_fees:
  "sum_list (map (\<lambda>tx. if is_coinbase tx then 0
                            else max 0 (sum_list (map utxo_amount
                                    (List.map_filter
                                       (\<lambda>inp. map_of (utxo_set demo_ledger2) (get_utxo_id inp))
                                       (inputs tx)))
                                  - sum_list (map amount (outputs tx))))
                     (pending_transactions demo_ledger2)) = 1"
  by (simp add: demo_ledger2_def demo_ledger_def demo_tx1_def demo_input_def is_coinbase_def
      List.map_filter_simps get_utxo_id_def str_int_def digit_char_def UTXO_init_def)

text \<open>
  One pending spend of the output of 50 (20 to bob, 29 back, fee 1) and a mining reward
  of 50: the new block has index 1 and holds the spend and the coinbase for 51; the
  UTXO set afterwards holds the two outputs of the spend and the coinbase output, the
  spent output is gone; the index holds both transactions; the mempool is empty.
\<close>

theorem mine_pending_transactions_spec_witness:
  "chain demo_ledger2 \<noteq> [] \<and>
   mine_pending_transactions demo_prims ''1700000005'' ''1700000006'' ''addr-m'' demo_ledger2
     \<noteq> None \<and>
   (\<exists>blk bc'.
      mine_pending_transactions demo_prims ''1700000005'' ''1700000006'' ''addr-m'' demo_ledger2
        = Some (Inr (blk, bc')) \<and>
      chain bc' = [demo_block, blk] \<and> index blk = 1 \<and>
      transactions blk = [to_dict demo_tx1, to_dict demo_reward] \<and>
      is_coinbase demo_reward \<and>
      utxo_set bc' =
        [(''t1:0'', UTXO_init ''t1'' 0 20 ''bob''),
         (''t1:1'', UTXO_init ''t1'' 1 29 ''addr-k1''),
         (''1700000005:0'', UTXO_init ''1700000005'' 0 51 ''addr-m'')] \<and>
      transaction_index bc' ''t1'' = Some (1, 0) \<and>
      transaction_index bc' ''1700000005'' = Some (1, 1) \<and>
      pending_transactions bc' = [])"
proof -
  have c: "chain demo_ledger2 \<noteq> []" by (simp add: demo_ledger2_def)
  from mine_pending_transactions_spec[OF c demo_ledger2_mined]
  obtain blk bc' reward total_fees where
    r: "mine_pending_transactions demo_prims ''1700000005'' ''1700000006'' ''addr-m'' demo_ledger2
          = Some (Inr (blk, bc'))"
    and ch: "chain bc' = chain demo_ledger2 @ [blk]"
    and ix: "index blk = int (length (chain demo_ledger2))"
    and tf: "total_fees =
       sum_list (map (\<lambda>tx. if is_coinbase tx then 0
                            else max 0 (sum_list (map utxo_amount
                                    (List.map_filter
                                       (\<lambda>inp. map_of (utxo_set demo_ledger2) (get_utxo_id inp))
                                       (inputs tx)))
                                  - sum_list (map amount (outputs tx))))
                     (pending_transactions demo_ledger2))"
    and rw: "reward =
       \<lparr>inputs = [],
        outputs = [\<lparr>amount = mining_reward demo_ledger2 + total_fees,
                    recipient_address = ''addr-m''\<rparr>],
        timestamp = ''1700000005'',
        block_height = Some (index blk),
        transaction_id =
          sha256_hexdigest demo_prims
            (json_dumps_transaction_data demo_prims []
               [(mining_reward demo_ledger2 + total_fees, ''addr-m'')]
               ''1700000005'' (Some (index blk)))\<rparr>"
    and cb: "is_coinbase reward"
    and tx: "transactions blk = map to_dict (pending_transactions demo_ledger2 @ [reward])"
    and fo: "foldl (\<lambda>r t. case r of Inl e \<Rightarrow> Inl e | Inr s \<Rightarrow> update_from_transaction t s)
       (Inr (utxo_set demo_ledger2)) (pending_transactions demo_ledger2 @ [reward])
         = Inr (utxo_set bc')"
    and ti: "\<forall>p tid. p < length (transactions blk) \<and>
        d_transaction_id (transactions blk ! p) = Some tid \<and> tid \<noteq> [] \<and>
        (\<forall>q. q < length (transactions blk) \<and> q \<noteq> p \<longrightarrow>
              d_transaction_id (transactions blk ! q) \<noteq> Some tid) \<longrightarrow>
        transaction_index bc' tid = Some (index blk, p)"
    and pe: "pending_transactions bc' = []"
    by blast
  have ix1: "index blk = 1" using ix by (simp add: demo_ledger2_def)
  have tf1: "total_fees = 1" using tf demo_ledger2_fees by simp
  have rw1: "reward = demo_reward"
    using rw ix1 tf1
    by (simp add: demo_reward_def demo_prims_def demo_ledger2_def demo_ledger_def)
  have p: "pending_transactions demo_ledger2 = [demo_tx1]" by (simp add: demo_ledger2_def)
  have txs: "transactions blk = [to_dict demo_tx1, to_dict demo_reward]"
    using tx p rw1 by simp
  have ch1: "chain bc' = [demo_block, blk]" using ch by (simp add: demo_ledger2_def)
  have cb1: "is_coinbase demo_reward" using cb rw1 by simp
  have us: "utxo_set bc' =
        [(''t1:0'', UTXO_init ''t1'' 0 20 ''bob''),
         (''t1:1'', UTXO_init ''t1'' 1 29 ''addr-k1''),
         (''1700000005:0'', UTXO_init ''1700000005'' 0 51 ''addr-m'')]"
    using fo[unfolded p rw1]
    by (simp add: demo_ledger2_def demo_ledger_def demo_tx1_def demo_input_def demo_reward_def
        update_from_transaction_def Let_def get_utxo_id_def str_int_def digit_char_def
        contains_def getitem_def delitem_def add_utxo_def utxo_get_utxo_id_def UTXO_init_def)
  have q0: "\<forall>q. q < length (transactions blk) \<and> q \<noteq> 0 \<longrightarrow>
              d_transaction_id (transactions blk ! q) \<noteq> Some ''t1''"
  proof (intro allI impI)
    fix q assume "q < length (transactions blk) \<and> q \<noteq> 0"
    then have "q = 1" using txs by simp
    then show "d_transaction_id (transactions blk ! q) \<noteq> Some ''t1''"
      using txs by (simp add: to_dict_def demo_reward_def)
  qed
  have q1: "\<forall>q. q < length (transactions blk) \<and> q \<noteq> 1 \<longrightarrow>
              d_transaction_id (transactions blk ! q) \<noteq> Some ''1700000005''"
  proof (intro allI impI)
    fix q assume "q < length (transactions blk) \<and> q \<noteq> 1"
    then have "q = 0" using txs by simp
    then show "d_transaction_id (transactions blk ! q) \<noteq> Some ''1700000005''"
      using txs by (simp add: to_dict_def demo_tx1_def)
  qed
  have t0: "transaction_index bc' ''t1'' = Some (1, 0)"
    using ti[rule_format, of 0 "''t1''"] q0 txs ix1 by (simp add: to_dict_def demo_tx1_def)
  have t1: "transaction_index bc' ''1700000005'' = Some (1, 1)"
    using ti[rule_format, of 1 "''1700000005''"] q1 txs ix1
    by (simp add: to_dict_def demo_reward_def)
  from c demo_ledger2_mined r ch1 ix1 txs cb1 us t0 t1 pe show ?thesis by blast
qed

text \<open>
  A transaction without inputs and with one positive output is accepted by
  \<open>add_transaction\<close> on every ledger, so also twice in a row.
\<close>

lemma demo_coinbase_accepted:
  "add_transaction P demo_coinbase bc =
     (True, bc\<lparr>pending_transactions := pending_transactions bc @ [demo_coinbase],
                history_cache := invalidate_cache (history_cache bc)\<rparr>)"
  by (simp add: add_transaction_def is_valid_def is_coinbase_def demo_coinbase_def)

text \<open>
  A search that cannot end: when every digest has 64 characters (as a SHA-256 hex
  digest has) and the difficulty is above 64, no prefix of the hash has as many
  characters as the target.
\<close>

lemma mine_block_never_returns:
  assumes "\<forall>s. length (sha256_hexdigest P s) = 64" and "64 < d" and "length (hash b) \<le> 64"
  shows "mine_block P d b = None"
proof -
  let ?Q = "\<lambda>((P, d), b) (y::block).
              \<not> ((\<forall>s. length (sha256_hexdigest P s) = 64) \<and> 64 < d \<and> length (hash b) \<le> 64)"
  have "?Q ((P, d), b) y" if "mine_block P d b = Some y" for y
  proof (rule mine_block.raw_induct[OF _ that])
    fix mb :: "prims \<Rightarrow> int \<Rightarrow> block \<Rightarrow> block option" and P d b y
    assume IH: "\<And>P d b y. mb P d b = Some y \<Longrightarrow> ?Q ((P, d), b) y"
      and eq: "(if py_prefix (hash b) d \<noteq> pow_target d
                then mb P d (let b1 = b\<lparr>nonce := nonce b + 1\<rparr>
                             in b1\<lparr>hash := calculate_hash P b1\<rparr>)
                else Some b) = Some y"
    show "?Q ((P, d), b) y"
    proof (clarsimp)
      assume h: "\<forall>s. length (sha256_hexdigest P s) = 64" and d: "64 < d"
        and l: "length (hash b) \<le> 64"
      let ?b1 = "b\<lparr>nonce := nonce b + 1\<rparr>"
      let ?b2 = "?b1\<lparr>hash := calculate_hash P ?b1\<rparr>"
      have "length (py_prefix (hash b) d) \<le> 64" using d l by (simp add: py_prefix_def)
      moreover have "length (pow_target d) > 64" using d by (simp add: pow_target_def)
      ultimately have "py_prefix (hash b) d \<noteq> pow_target d" by auto
      with eq have "mb P d ?b2 = Some y" by (simp add: Let_def)
      from IH[OF this] h d show False
        by (simp add: calculate_hash_def calculate_block_hash_def calculate_sha256_def)
    qed
  qed
  with assms have "mine_block P d b \<noteq> Some y" for y by auto
  then show ?thesis by (cases "mine_block P d b") auto
qed

text \<open>
  Claim C4 as stated, for every ledger state, fails in three ways. On an empty chain
  (a ledger loaded from a file whose chain list is empty) \<open>chain[-1]\<close> raises
  IndexError. At difficulty 65 the call never returns, for any hash function with
  digests of 64 characters. And, whatever the library functions are, when two
  transactions of the block carry the same id the index maps the id to the later
  position, not to position 0: \<open>add_transaction\<close> accepts a transaction without inputs
  any number of times, and the ledger below has it twice in the mempool at difficulty 0.
\<close>

theorem mine_pending_transactions_failures:
  "(\<forall>P now_tx now_block address.
      mine_pending_transactions P now_tx now_block address demo_ledger = Some (Inl IndexError)) \<and>
   \<not> (\<exists>P. (\<forall>s. length (sha256_hexdigest P s) = 64) \<and>
          mine_pending_transactions P ''1700000005'' ''1700000006'' ''addr-m''
            (demo_ledger2\<lparr>difficulty := 65\<rparr>) \<noteq> None) \<and>
   \<not> (\<exists>P. \<forall>now_tx now_block address bc blk bc'.
         mine_pending_transactions P now_tx now_block address bc = Some (Inr (blk, bc')) \<longrightarrow>
         (\<forall>p tid. p < length (transactions blk) \<and>
                   d_transaction_id (transactions blk ! p) = Some tid \<longrightarrow>
                   transaction_index bc' tid = Some (index blk, p)))"
proof (intro conjI)
  show "\<forall>P now_tx now_block address.
      mine_pending_transactions P now_tx now_block address demo_ledger = Some (Inl IndexError)"
    by (simp add: mine_pending_transactions_def Let_def get_latest_block_def demo_ledger_def)
next
  show "\<not> (\<exists>P. (\<forall>s. length (sha256_hexdigest P s) = 64) \<and>
          mine_pending_transactions P ''1700000005'' ''1700000006'' ''addr-m''
            (demo_ledger2\<lparr>difficulty := 65\<rparr>) \<noteq> None)"
  proof
    assume "\<exists>P. (\<forall>s. length (sha256_hexdigest P s) = 64) \<and>
          mine_pending_transactions P ''1700000005'' ''1700000006'' ''addr-m''
            (demo_ledger2\<lparr>difficulty := 65\<rparr>) \<noteq> None"
    then obtain P where h: "\<forall>s. length (sha256_hexdigest P s) = 64"
      and n: "mine_pending_transactions P ''1700000005'' ''1700000006'' ''addr-m''
            (demo_ledger2\<lparr>difficulty := 65\<rparr>) \<noteq> None" by blast
    let ?bc = "demo_ledger2\<lparr>difficulty := 65\<rparr>"
    have c: "chain ?bc \<noteq> []" by (simp add: demo_ledger2_def)
    from mine_pending_transactions_unfold[OF c, of P "''1700000005''" "''addr-m''" "''1700000006''"]
    obtain nb s' where nb: "hash nb = calculate_hash P nb"
      and unfold: "mine_pending_transactions P ''1700000005'' ''1700000006'' ''addr-m'' ?bc =
         (case mine_block P (difficulty ?bc) nb of
            None \<Rightarrow> None
          | Some mined \<Rightarrow> Some (Inr (mined, ledger_after ?bc mined s')))"
      by blast
    have "length (hash nb) \<le> 64"
      using nb h by (simp add: calculate_hash_def calculate_block_hash_def calculate_sha256_def)
    from mine_block_never_returns[OF h _ this, of 65]
    have "mine_block P (difficulty ?bc) nb = None" by simp
    with unfold n show False by simp
  qed
next
  show "\<not> (\<exists>P. \<forall>now_tx now_block address bc blk bc'.
         mine_pending_transactions P now_tx now_block address bc = Some (Inr (blk, bc')) \<longrightarrow>
         (\<forall>p tid. p < length (transactions blk) \<and>
                   d_transaction_id (transactions blk ! p) = Some tid \<longrightarrow>
                   transaction_index bc' tid = Some (index blk, p)))"
  proof
    assume "\<exists>P. \<forall>now_tx now_block address bc blk bc'.
         mine_pending_transactions P now_tx now_block address bc = Some (Inr (blk, bc')) \<longrightarrow>
         (\<forall>p tid. p < length (transactions blk) \<and>
                   d_transaction_id (transactions blk ! p) = Some tid \<longrightarrow>
                   transaction_index bc' tid = Some (index blk, p))"
    then obtain P where
      P: "\<And>now_tx now_block address bc blk bc' p tid.
         mine_pending_transactions P now_tx now_block address bc = Some (Inr (blk, bc')) \<Longrightarrow>
         p < length (transactions blk) \<Longrightarrow>
         d_transaction_id (transactions blk ! p) = Some tid \<Longrightarrow>
         transaction_index bc' tid = Some (index blk, p)"
      by blast
    let ?rw = "reward_transaction P ''1700000005'' ''addr-m'' demo_ledger3"
    have c: "chain demo_ledger3 \<noteq> []" by (simp add: demo_ledger3_def)
    from mine_pending_transactions_unfold[OF c, of P "''1700000005''" "''addr-m''" "''1700000006''"]
    obtain nb s' where nb: "index nb = int (length (chain demo_ledger3))"
      "transactions nb = map to_dict (pending_transactions demo_ledger3 @ [?rw])"
      and unfold: "mine_pending_transactions P ''1700000005'' ''1700000006'' ''addr-m'' demo_ledger3 =
         (case mine_block P (difficulty demo_ledger3) nb of
            None \<Rightarrow> None
          | Some mined \<Rightarrow> Some (Inr (mined, ledger_after demo_ledger3 mined s')))"
      by blast
    have m: "mine_block P (difficulty demo_ledger3) nb = Some nb"
      by (simp add: demo_ledger3_def mine_block_difficulty_zero)
    let ?bc' = "ledger_after demo_ledger3 nb s'"
    have r: "mine_pending_transactions P ''1700000005'' ''1700000006'' ''addr-m'' demo_ledger3
               = Some (Inr (nb, ?bc'))"
      using unfold m by simp
    have txs: "transactions nb = [to_dict demo_coinbase, to_dict demo_coinbase, to_dict ?rw]"
      using nb(2) by (simp add: demo_ledger3_def)
    have "transaction_index ?bc' ''c'' = Some (index nb, 0)"
      by (rule P[OF r]) (simp_all add: txs to_dict_def demo_coinbase_def)
    moreover have "transaction_index ?bc' ''c'' \<noteq> Some (index nb, 0)"
      by (simp add: ledger_after_def update_transaction_index_def txs to_dict_def
          demo_coinbase_def)
    ultimately show False by simp
  qed
qed

subsection \<open>Merkle proofs\<close>
























end
